theory Spec2Isabelle
  imports Complex_Main
begin

section \<open>Python strings and integers\<close>

text \<open>
  The launcher works on command-line text. A Python \<open>str\<close> is modelled as a
  \<open>string\<close>; the model covers ASCII text, every character above 127 counts as
  neither white space nor a digit.
\<close>

definition is_space :: "char \<Rightarrow> bool" where
  "is_space c = (c \<in> set [CHR 0x09, CHR 0x0A, CHR 0x0B, CHR 0x0C, CHR 0x0D,
                          CHR 0x1C, CHR 0x1D, CHR 0x1E, CHR 0x1F, CHR 0x20])"

definition strip :: "string \<Rightarrow> string" where
  "strip s = rev (dropWhile is_space (rev (dropWhile is_space s)))"

definition digit_val :: "char \<Rightarrow> nat option" where
  "digit_val c =
     (let n = (of_char c :: nat) in if 48 \<le> n \<and> n \<le> 57 then Some (n - 48) else None)"

text \<open>
  The digits of a decimal literal after its first digit: Python accepts a single
  underscore between two digits and nothing else.
\<close>

fun parse_digits :: "string \<Rightarrow> nat \<Rightarrow> nat option" where
  "parse_digits [] acc = Some acc"
| "parse_digits (c # cs) acc =
     (if c = CHR ''_'' then
        (case cs of
           [] \<Rightarrow> None
         | d # ds \<Rightarrow>
             (case digit_val d of
                None \<Rightarrow> None
              | Some v \<Rightarrow> parse_digits ds (10 * acc + v)))
      else
        (case digit_val c of
           None \<Rightarrow> None
         | Some v \<Rightarrow> parse_digits cs (10 * acc + v)))"

definition parse_nat :: "string \<Rightarrow> nat option" where
  "parse_nat s =
     (case s of
        [] \<Rightarrow> None
      | d # ds \<Rightarrow> (case digit_val d of None \<Rightarrow> None | Some v \<Rightarrow> parse_digits ds v))"

text \<open>
  \<open>int(s)\<close> for a string \<open>s\<close>: \<open>None\<close> is the \<open>ValueError\<close> that Python raises
  when the text is no decimal integer literal.
\<close>

definition py_int :: "string \<Rightarrow> int option" where
  "py_int s =
     (case strip s of
        [] \<Rightarrow> None
      | c # cs \<Rightarrow>
          if c = CHR ''-'' then map_option (\<lambda>n. - int n) (parse_nat cs)
          else if c = CHR ''+'' then map_option int (parse_nat cs)
          else map_option int (parse_nat (c # cs)))"

text \<open>\<open>str(n)\<close> for an integer, as an f-string renders it.\<close>

definition digit_char :: "nat \<Rightarrow> char" where
  "digit_char d = ''0123456789'' ! d"

fun str_nat :: "nat \<Rightarrow> string" where
  "str_nat n = (if n < 10 then [digit_char n] else str_nat (n div 10) @ [digit_char (n mod 10)])"

declare str_nat.simps [simp del]

definition str_int :: "int \<Rightarrow> string" where
  "str_int i = (if i < 0 then CHR ''-'' # str_nat (nat (- i)) else str_nat (nat i))"

text \<open>\<open>str(v)\<close> for a value that is an integer or \<open>None\<close>.\<close>

definition str_opt_int :: "int option \<Rightarrow> string" where
  "str_opt_int v = (case v of None \<Rightarrow> ''None'' | Some i \<Rightarrow> str_int i)"

text \<open>\<open>s.split(sep)\<close> for a one-character separator.\<close>

fun split_on :: "char \<Rightarrow> string \<Rightarrow> string list" where
  "split_on sep [] = [[]]"
| "split_on sep (x # xs) =
     (if x = sep then [] # split_on sep xs
      else (case split_on sep xs of
              [] \<Rightarrow> [[x]]
            | y # ys \<Rightarrow> (x # y) # ys))"

section \<open>Errors, the host and the process state\<close>

text \<open>
  Every exception the launcher can raise is a value. \<open>ValueError\<close>, \<open>RuntimeError\<close>
  and \<open>TypeError\<close> carry their message.
\<close>

datatype error =
    AssertionError
  | ValueError string
  | RuntimeError string
  | TypeError string
  | IndexError

definition quoted :: "string \<Rightarrow> string" where
  "quoted s = [CHR 0x27] @ s @ [CHR 0x27]"

text \<open>
  The message of the \<open>ValueError\<close> of \<open>int(s)\<close>; the quoting is that of \<open>repr\<close> for
  text without quotes, backslashes and control characters.
\<close>

definition int_error :: "string \<Rightarrow> error" where
  "int_error s = ValueError (''invalid literal for int() with base 10: '' @ quoted s)"

text \<open>
  What the launcher reads from the machine it runs on: \<open>os.cpu_count()\<close> (which is
  \<open>None\<close> when the count is undetermined), \<open>torch.cuda.is_available()\<close>,
  \<open>torch.cuda.device_count()\<close>, \<open>sys.executable\<close>, the endpoint of the embedded etcd
  server and the text of \<open>uuid.uuid4()\<close>.
\<close>

record host =
  os_cpu_count :: "int option"
  cuda_is_available :: bool
  cuda_device_count :: int
  sys_executable :: string
  etcd_endpoint :: string
  uuid4 :: string

datatype event = LogInfo string | LogWarning string | Print string

text \<open>
  The state the launcher mutates: \<open>os.environ\<close> and what it has logged or printed
  so far, oldest first.
\<close>

record proc =
  environ :: "string \<rightharpoonup> string"
  emitted :: "event list"

definition emit :: "event \<Rightarrow> proc \<Rightarrow> proc" where
  "emit e st = st\<lparr>emitted := emitted st @ [e]\<rparr>"

section \<open>Arguments and the launch configuration\<close>

text \<open>The namespace that \<open>parse_args\<close> produces, one field per command-line option.\<close>

record args =
  nnodes :: string
  nproc_per_node :: string
  rdzv_backend :: string
  rdzv_endpoint :: string
  rdzv_id :: string
  rdzv_conf :: string
  standalone :: bool
  max_restarts :: int
  monitor_interval :: real
  start_method :: string
  role :: string
  module :: bool
  no_python :: bool
  log_dir :: "string option"
  redirects :: string
  tee :: string
  node_rank :: int
  master_addr :: string
  master_port :: int
  training_script :: string
  training_script_args :: "string list"
  use_env :: bool

text \<open>
  A value of the \<open>rdzv_configs\<close> dictionary: the parsed entries are text, the rank of
  the node is an integer.
\<close>

datatype conf_value = StrV string | IntV int

text \<open>
  \<open>LaunchConfig\<close>, which is declared in \<open>torch.distributed.launcher.api\<close>, as the
  record of the keyword arguments that \<open>config_from_args\<close> passes to its constructor.
  The field names carry the prefix \<open>cfg_\<close> since \<open>args\<close> has fields of the same names.
  \<open>'s\<close> is the type of what \<open>Std.from_str\<close> returns.
\<close>

record 's launch_config =
  cfg_min_nodes :: int
  cfg_max_nodes :: int
  cfg_nproc_per_node :: "int option"
  cfg_run_id :: string
  cfg_role :: string
  cfg_rdzv_endpoint :: string
  cfg_rdzv_backend :: string
  cfg_rdzv_configs :: "string \<rightharpoonup> conf_value"
  cfg_max_restarts :: int
  cfg_monitor_interval :: real
  cfg_start_method :: string
  cfg_redirects :: 's
  cfg_tee :: 's

text \<open>
  The functions and constants of other modules that this file calls and whose code is
  not part of it, taken as parameters: \<open>_parse_rendezvous_config\<close> (text to a
  dictionary of text, or an exception), \<open>Std.from_str\<close>, \<open>macros.local_rank\<close> and
  \<open>elastic_launch(config, entrypoint)(*args)\<close>, which may do anything to the process
  state and may raise.
\<close>

record 's externals =
  parse_rendezvous_config :: "string \<Rightarrow> error + (string \<rightharpoonup> string)"
  std_from_str :: "string \<Rightarrow> error + 's"
  macros_local_rank :: string
  elastic_launch :: "'s launch_config \<Rightarrow> string \<Rightarrow> string list \<Rightarrow> proc \<Rightarrow> (error + unit) \<times> proc"

section \<open>The launcher\<close>

definition parse_min_max_nnodes :: "string \<Rightarrow> error + int \<times> int" where
  "parse_min_max_nnodes text =
     (case split_on CHR '':'' text of
        [a] \<Rightarrow>
          (case py_int a of
             None \<Rightarrow> Inl (int_error a)
           | Some n \<Rightarrow> Inr (n, n))
      | [a, b] \<Rightarrow>
          (case py_int a of
             None \<Rightarrow> Inl (int_error a)
           | Some lo \<Rightarrow>
               (case py_int b of
                  None \<Rightarrow> Inl (int_error b)
                | Some hi \<Rightarrow> Inr (lo, hi)))
      | _ \<Rightarrow>
          Inl (RuntimeError (''nnodes='' @ text @ '' is not in '' @ [CHR 0x22] @ ''MIN:MAX''
                             @ [CHR 0x22] @ '' format'')))"

text \<open>
  The end of \<open>determine_local_world_size\<close>, shared by its \<open>cpu\<close>, \<open>gpu\<close> and \<open>auto\<close>
  branches: log the choice and return it.
\<close>

definition log_num_proc :: "host \<Rightarrow> string \<Rightarrow> int option \<Rightarrow> string \<Rightarrow> proc \<Rightarrow> (error + int option) \<times> proc" where
  "log_num_proc h npn num_proc device_type st =
     (Inr num_proc,
      emit (LogInfo (''Using nproc_per_node='' @ npn @ '','' @ '' seting to '' @ str_opt_int num_proc
                     @ '' since the instance '' @ ''has '' @ str_opt_int (os_cpu_count h) @ '' ''
                     @ device_type)) st)"

definition determine_local_world_size :: "host \<Rightarrow> string \<Rightarrow> proc \<Rightarrow> (error + int option) \<times> proc" where
  "determine_local_world_size h npn st =
     (let st1 = emit (LogInfo (''Using nproc_per_node='' @ npn @ ''.'')) st in
      case py_int npn of
        Some n \<Rightarrow> (Inr (Some n), st1)
      | None \<Rightarrow>
          if npn = ''cpu'' then log_num_proc h npn (os_cpu_count h) ''cpu'' st1
          else if npn = ''gpu'' then
            (if \<not> cuda_is_available h then (Inl (ValueError ''Cuda is not available.''), st1)
             else log_num_proc h npn (Some (cuda_device_count h)) ''gpu'' st1)
          else if npn = ''auto'' then
            (if cuda_is_available h then log_num_proc h npn (Some (cuda_device_count h)) ''gpu'' st1
             else log_num_proc h npn (os_cpu_count h) ''cpu'' st1)
          else (Inl (ValueError (''Unsupported nproc_per_node value: '' @ npn)), st1))"

definition get_rdzv_endpoint :: "args \<Rightarrow> string" where
  "get_rdzv_endpoint a =
     (if rdzv_backend a = ''static'' then master_addr a @ '':'' @ str_int (master_port a)
      else rdzv_endpoint a)"

definition omp_banner :: string where
  "omp_banner =
     replicate 41 CHR ''*'' @ [CHR 0x0A]
     @ ''Setting OMP_NUM_THREADS environment variable for each process to be ''
     @ str_int 1 @ '' in default, to avoid your system being overloaded, ''
     @ ''please further tune the variable for optimal performance in ''
     @ ''your application as needed. '' @ [CHR 0x0A]
     @ replicate 41 CHR ''*''"

text \<open>
  The \<open>OMP_NUM_THREADS\<close> step of \<open>config_from_args\<close>. The comparison
  \<open>nproc_per_node > 1\<close> is evaluated only when the variable is absent, and raises
  \<open>TypeError\<close> when the worker count is \<open>None\<close>.
\<close>

definition set_omp_num_threads :: "int option \<Rightarrow> proc \<Rightarrow> error + proc" where
  "set_omp_num_threads npn st =
     (if environ st ''OMP_NUM_THREADS'' = None then
        (case npn of
           None \<Rightarrow>
             Inl (TypeError (quoted ''>'' @ '' not supported between instances of ''
                             @ quoted ''NoneType'' @ '' and '' @ quoted ''int''))
         | Some n \<Rightarrow>
             if n > 1 then
               Inr ((emit (Print omp_banner) st)
                      \<lparr>environ := (environ st)(''OMP_NUM_THREADS'' \<mapsto> str_int 1)\<rparr>)
             else Inr st)
      else Inr st)"

text \<open>
  The command line that \<open>config_from_args\<close> builds after the configuration, from
  \<open>with_python = not args.no_python\<close> to the last \<open>cmd.extend\<close>.
\<close>

definition build_cmd :: "host \<Rightarrow> 's externals \<Rightarrow> args \<Rightarrow> proc \<Rightarrow> (error + string list) \<times> proc" where
  "build_cmd h X a st =
     (let with_python = \<not> no_python a in
      if \<not> with_python \<and> \<not> use_env a then
        (Inl (ValueError (''When using the '' @ quoted ''--no_python'' @ '' flag,''
                          @ '' you must also set the '' @ quoted ''--use_env'' @ '' flag.'')), st)
      else if \<not> with_python \<and> module a then
        (Inl (ValueError (''Don'' @ [CHR 0x27] @ ''t use both the '' @ quoted ''--no_python''
                          @ '' flag'' @ '' and the '' @ quoted ''--module''
                          @ '' flag at the same time.'')), st)
      else
        (let cmd0 = (if with_python
                     then [sys_executable h, ''-u''] @ (if module a then [''-m''] else [])
                     else []);
             cmd1 = cmd0 @ [training_script a]
         in if \<not> use_env a then
              (Inr (cmd1 @ [''--local_rank='' @ macros_local_rank X] @ training_script_args a),
               emit (LogWarning (''`torch.distributed.launch` is Deprecated. ''
                                 @ ''Use torch.distributed.elastic_launch'')) st)
            else (Inr (cmd1 @ training_script_args a), st)))"

text \<open>
  The configuration that \<open>config_from_args\<close> builds, from the call of
  \<open>_parse_rendezvous_config\<close> to the \<open>LaunchConfig\<close> constructor, whose keyword
  arguments are evaluated in the order written.
\<close>

definition make_config :: "'s externals \<Rightarrow> args \<Rightarrow> int \<Rightarrow> int \<Rightarrow> int option \<Rightarrow> error + 's launch_config" where
  "make_config X a lo hi npn =
     (case parse_rendezvous_config X (rdzv_conf a) of
        Inl e \<Rightarrow> Inl e
      | Inr parsed \<Rightarrow>
          (let d = map_option StrV \<circ> parsed;
               rdzv_configs = (if rdzv_backend a = ''static''
                               then d(''rank'' \<mapsto> IntV (node_rank a)) else d);
               endpoint = get_rdzv_endpoint a
           in case std_from_str X (redirects a) of
                Inl e \<Rightarrow> Inl e
              | Inr r \<Rightarrow>
                  (case std_from_str X (tee a) of
                     Inl e \<Rightarrow> Inl e
                   | Inr t \<Rightarrow>
                       Inr \<lparr>cfg_min_nodes = lo,
                            cfg_max_nodes = hi,
                            cfg_nproc_per_node = npn,
                            cfg_run_id = rdzv_id a,
                            cfg_role = role a,
                            cfg_rdzv_endpoint = endpoint,
                            cfg_rdzv_backend = rdzv_backend a,
                            cfg_rdzv_configs = rdzv_configs,
                            cfg_max_restarts = max_restarts a,
                            cfg_monitor_interval = monitor_interval a,
                            cfg_start_method = start_method a,
                            cfg_redirects = r,
                            cfg_tee = t\<rparr>)))"

definition config_from_args :: "host \<Rightarrow> 's externals \<Rightarrow> args \<Rightarrow> proc \<Rightarrow> (error + 's launch_config \<times> string list) \<times> proc" where
  "config_from_args h X a st =
     (case parse_min_max_nnodes (nnodes a) of
        Inl e \<Rightarrow> (Inl e, st)
      | Inr (lo, hi) \<Rightarrow>
          if \<not> (0 < lo \<and> lo \<le> hi) then (Inl AssertionError, st)
          else if \<not> (max_restarts a \<ge> 0) then (Inl AssertionError, st)
          else
            (case determine_local_world_size h (nproc_per_node a) st of
               (Inl e, st1) \<Rightarrow> (Inl e, st1)
             | (Inr npn, st1) \<Rightarrow>
                 (case set_omp_num_threads npn st1 of
                    Inl e \<Rightarrow> (Inl e, st1)
                  | Inr st2 \<Rightarrow>
                      (case make_config X a lo hi npn of
                         Inl e \<Rightarrow> (Inl e, st2)
                       | Inr config \<Rightarrow>
                           (case build_cmd h X a st2 of
                              (Inl e, st3) \<Rightarrow> (Inl e, st3)
                            | (Inr cmd, st3) \<Rightarrow> (Inr (config, cmd), st3))))))"

text \<open>
  The embedded etcd server of the standalone mode, as far as \<open>run\<close> drives it: absent,
  started, or stopped.
\<close>

datatype etcd_server = NoServer | Started | Stopped

text \<open>
  How \<open>run\<close> ends: what it returns or raises, the argument namespace as \<open>run\<close> leaves
  it, the embedded server and the process state.
\<close>

record run_exit =
  outcome :: "error + unit"
  args_after :: args
  server :: etcd_server
  proc_after :: proc

definition rendezvous_info :: "args \<Rightarrow> string" where
  "rendezvous_info a =
     [CHR 0x0A] @ replicate 38 CHR ''*'' @ [CHR 0x0A]
     @ ''Rendezvous info:'' @ [CHR 0x0A]
     @ ''--rdzv_backend='' @ rdzv_backend a @ '' ''
     @ ''--rdzv_endpoint='' @ rdzv_endpoint a @ '' ''
     @ ''--rdzv_id='' @ rdzv_id a @ [CHR 0x0A]
     @ replicate 38 CHR ''*'' @ [CHR 0x0A]"

definition run :: "host \<Rightarrow> 's externals \<Rightarrow> args \<Rightarrow> proc \<Rightarrow> run_exit" where
  "run h X a st =
     (let (a1, srv, st1) =
            (if standalone a then
               (let a' = a\<lparr>rdzv_backend := ''etcd'',
                            rdzv_endpoint := etcd_endpoint h,
                            rdzv_id := uuid4 h\<rparr>
                in (a', Started, emit (LogInfo (rendezvous_info a')) st))
             else (a, NoServer, st))
      in case config_from_args h X a1 st1 of
           (Inl e, st2) \<Rightarrow>
             \<lparr>outcome = Inl e, args_after = a1, server = srv, proc_after = st2\<rparr>
         | (Inr (config, cmd), st2) \<Rightarrow>
             (let (r, st3) = (case cmd of
                                [] \<Rightarrow> (Inl IndexError, st2)
                              | entrypoint # rest \<Rightarrow> elastic_launch X config entrypoint rest st2)
              in \<lparr>outcome = r, args_after = a1,
                   server = (if standalone a1 then Stopped else srv),
                   proc_after = st3\<rparr>))"

section \<open>Rank assignment\<close>

text \<open>
  Modelled from the spec: the rank assigner, whose code is not in
  \<open>elastic_launch.py\<close>. Given the ordered node list, the position \<open>p\<close> of this node
  in it and the local world size \<open>L\<close>, it computes \<open>group_rank = p\<close>,
  \<open>world_size = len(ordered_node_list) * L\<close> and, for each local worker index
  \<open>i\<close> in \<open>[0, L)\<close>, \<open>global_rank = p*L + i\<close> and \<open>local_rank = i\<close>.
\<close>

record worker_spec =
  local_rank :: nat
  global_rank :: nat

record rank_assignment =
  group_rank :: nat
  world_size :: nat
  workers :: "worker_spec list"

definition assign_ranks :: "'node list \<Rightarrow> nat \<Rightarrow> nat \<Rightarrow> rank_assignment" where
  "assign_ranks ordered_node_list p L =
     \<lparr>group_rank = p,
      world_size = length ordered_node_list * L,
      workers = map (\<lambda>i. \<lparr>local_rank = i, global_rank = p * L + i\<rparr>) [0..<L]\<rparr>"

text \<open>The global ranks of all workers, node after node in the order of the list.\<close>

definition all_global_ranks :: "'node list \<Rightarrow> nat \<Rightarrow> nat list" where
  "all_global_ranks ordered_node_list L =
     concat (map (\<lambda>p. map global_rank (workers (assign_ranks ordered_node_list p L)))
                 [0..<length ordered_node_list])"

section \<open>The restart controller\<close>

text \<open>
  Modelled from the spec: the restart controller, whose code is not in
  \<open>elastic_launch.py\<close>. Its states are \<open>INIT\<close>, \<open>NEGOTIATING\<close>, \<open>RUNNING\<close>,
  \<open>SUCCEEDED\<close> and \<open>FAILED_FATAL\<close>; the \<open>FAILED_RETRY\<close> of the spec is the passage
  from \<open>RUNNING\<close> back to \<open>NEGOTIATING\<close>. \<open>INIT\<close> reads the job configuration and
  sets \<open>restarts_used = 0\<close>. In \<open>NEGOTIATING\<close> a completed rendezvous leads to
  \<open>RUNNING\<close> and a timeout to \<open>FAILED_FATAL\<close>. In \<open>RUNNING\<close>, all workers exiting
  with code 0 leads to \<open>SUCCEEDED\<close>; a worker failure or a superseded rendezvous round
  tears the worker group down and increments \<open>restarts_used\<close>, then leads to
  \<open>FAILED_FATAL\<close> if \<open>restarts_used > max_restarts\<close> and to \<open>NEGOTIATING\<close>
  otherwise. \<open>SUCCEEDED\<close> and \<open>FAILED_FATAL\<close> are terminal. An observation that the
  spec gives no transition for in the current state changes nothing. \<open>restart_limit\<close>
  is the \<open>max_restarts\<close> of the spec, and \<open>teardowns\<close> counts the whole-group
  teardowns of the run.
\<close>

datatype phase = INIT | NEGOTIATING | RUNNING | SUCCEEDED | FAILED_FATAL

datatype observation =
    ConfigRead
  | RendezvousComplete
  | RendezvousTimeout
  | AllExitedZero
  | WorkerFailed
  | RoundSuperseded

record controller =
  phase_of :: phase
  restarts_used :: nat
  restart_limit :: nat
  teardowns :: nat

definition controller_init :: "nat \<Rightarrow> controller" where
  "controller_init k = \<lparr>phase_of = INIT, restarts_used = 0, restart_limit = k, teardowns = 0\<rparr>"

definition teardown :: "controller \<Rightarrow> controller" where
  "teardown c =
     (let used = restarts_used c + 1 in
      c\<lparr>phase_of := (if used > restart_limit c then FAILED_FATAL else NEGOTIATING),
        restarts_used := used,
        teardowns := teardowns c + 1\<rparr>)"

fun controller_step :: "controller \<Rightarrow> observation \<Rightarrow> controller" where
  "controller_step c ob =
     (case (phase_of c, ob) of
        (INIT, ConfigRead) \<Rightarrow> c\<lparr>phase_of := NEGOTIATING, restarts_used := 0\<rparr>
      | (NEGOTIATING, RendezvousComplete) \<Rightarrow> c\<lparr>phase_of := RUNNING\<rparr>
      | (NEGOTIATING, RendezvousTimeout) \<Rightarrow> c\<lparr>phase_of := FAILED_FATAL\<rparr>
      | (RUNNING, AllExitedZero) \<Rightarrow> c\<lparr>phase_of := SUCCEEDED\<rparr>
      | (RUNNING, WorkerFailed) \<Rightarrow> teardown c
      | (RUNNING, RoundSuperseded) \<Rightarrow> teardown c
      | _ \<Rightarrow> c)"

definition controller_run :: "nat \<Rightarrow> observation list \<Rightarrow> controller" where
  "controller_run k obs = foldl controller_step (controller_init k) obs"

section \<open>Concrete arguments, host and collaborators\<close>

text \<open>
  The namespace of \<open>parse_args\<close> when only the training script and its arguments are
  given: every option at the default that \<open>get_args_parser\<close> and \<open>parse_args\<close>
  declare.
\<close>

definition default_args :: "string \<Rightarrow> string list \<Rightarrow> args" where
  "default_args script script_args =
     \<lparr>nnodes = ''1:1'',
      nproc_per_node = ''auto'',
      rdzv_backend = ''static'',
      rdzv_endpoint = '''',
      rdzv_id = ''none'',
      rdzv_conf = '''',
      standalone = False,
      max_restarts = 3,
      monitor_interval = 5,
      start_method = ''spawn'',
      role = ''default'',
      module = False,
      no_python = False,
      log_dir = None,
      redirects = ''0'',
      tee = ''0'',
      node_rank = 0,
      master_addr = ''127.0.0.1'',
      master_port = 29500,
      training_script = script,
      training_script_args = script_args,
      use_env = True\<rparr>"

text \<open>
  A machine with four cores and no CUDA device, one whose core count is undetermined,
  and collaborators that accept every text and launch successfully; they serve as the
  concrete inputs of the examples below.
\<close>

definition cpu_host :: host where
  "cpu_host =
     \<lparr>os_cpu_count = Some 4,
      cuda_is_available = False,
      cuda_device_count = 0,
      sys_executable = ''/usr/bin/python3'',
      etcd_endpoint = ''localhost:2379'',
      uuid4 = ''6f1c0e3a-58a4-4c57-9d0e-2f6b7a1f3c11''\<rparr>"

definition undetermined_host :: host where
  "undetermined_host = cpu_host\<lparr>os_cpu_count := None\<rparr>"

definition plain_externals :: "string externals" where
  "plain_externals =
     \<lparr>parse_rendezvous_config = (\<lambda>s. Inr (if s = [] then Map.empty else [''conf'' \<mapsto> s])),
      std_from_str = (\<lambda>s. Inr s),
      macros_local_rank = ''${local_rank}'',
      elastic_launch = (\<lambda>config entrypoint rest st. (Inr (), st))\<rparr>"

definition fresh_proc :: proc where
  "fresh_proc = \<lparr>environ = Map.empty, emitted = []\<rparr>"

text \<open>
  The \<open>LaunchConfig\<close> that the default arguments give on the four-core machine.
\<close>

definition default_config :: "string launch_config" where
  "default_config =
     \<lparr>cfg_min_nodes = 1,
      cfg_max_nodes = 1,
      cfg_nproc_per_node = Some 4,
      cfg_run_id = ''none'',
      cfg_role = ''default'',
      cfg_rdzv_endpoint = ''127.0.0.1:29500'',
      cfg_rdzv_backend = ''static'',
      cfg_rdzv_configs = [''rank'' \<mapsto> IntV 0],
      cfg_max_restarts = 3,
      cfg_monitor_interval = 5,
      cfg_start_method = ''spawn'',
      cfg_redirects = ''0'',
      cfg_tee = ''0''\<rparr>"

section \<open>Properties of rank assignment\<close>

lemma concat_blocks_upt:
  "concat (map (\<lambda>p. map (\<lambda>i. p * L + i) [0..<L]) [0..<n]) = [0..<n * L]"
proof (induction n)
  case 0
  show ?case by simp
next
  case (Suc n)
  have blk: "map (\<lambda>i. n * L + i) [0..<L] = [n * L..<n * L + L]"
    using map_add_upt [of "n * L" L] by (simp add: add.commute)
  have "[0..<n * L] @ [n * L..<n * L + L] = [0..<n * L + L]"
    using upt_add_eq_append [of 0 "n * L" L] by simp
  with Suc blk show ?case by (simp add: add.commute)
qed

lemma all_global_ranks_upt: "all_global_ranks nodes L = [0..<length nodes * L]"
  unfolding all_global_ranks_def assign_ranks_def
  using concat_blocks_upt [of L "length nodes"] by (simp add: comp_def)

text \<open>
  Claim C7. For an ordered list of \<open>n\<close> joined nodes and a homogeneous local world
  size \<open>L\<close>, the node at position \<open>p\<close> gets \<open>group_rank = p\<close> and
  \<open>world_size = n * L\<close>, its local worker \<open>i\<close> (for \<open>i\<close> in \<open>[0, L)\<close>) gets local rank
  \<open>i\<close> and global rank \<open>p * L + i\<close>, and the global ranks of all nodes, taken node
  after node, are exactly \<open>0, 1, ..., n * L - 1\<close>: contiguous and without duplicates.
\<close>

theorem rank_assignment_contiguous:
  "p < length nodes \<Longrightarrow>
     group_rank (assign_ranks nodes p L) = p
   \<and> world_size (assign_ranks nodes p L) = length nodes * L
   \<and> length (workers (assign_ranks nodes p L)) = L
   \<and> (\<forall>i<L. workers (assign_ranks nodes p L) ! i = \<lparr>local_rank = i, global_rank = p * L + i\<rparr>)
   \<and> all_global_ranks nodes L = [0..<length nodes * L]
   \<and> distinct (all_global_ranks nodes L)
   \<and> set (all_global_ranks nodes L) = {0..<world_size (assign_ranks nodes p L)}"
  by (simp add: all_global_ranks_upt) (simp add: assign_ranks_def)

theorem rank_assignment_contiguous_witness:
  "(1::nat) < length [''A'', ''B'']
   \<and> group_rank (assign_ranks [''A'', ''B''] 1 2) = 1
   \<and> world_size (assign_ranks [''A'', ''B''] 1 2) = 4
   \<and> workers (assign_ranks [''A'', ''B''] 1 2) ! 1 = \<lparr>local_rank = 1, global_rank = 3\<rparr>
   \<and> all_global_ranks [''A'', ''B''] 2 = [0, 1, 2, 3]"
proof -
  have h: "(1::nat) < length [''A'', ''B'']" by simp
  have u: "[0..<4] = [0, 1, 2, 3::nat]" by (simp add: upt_rec)
  from rank_assignment_contiguous [OF h, of 2] u show ?thesis by simp
qed

section \<open>Properties of the restart controller\<close>

lemma controller_run_snoc:
  "controller_run k (obs @ [ob]) = controller_step (controller_run k obs) ob"
  by (simp add: controller_run_def)

lemma controller_run_Nil: "controller_run k [] = controller_init k"
  by (simp add: controller_run_def)

lemma controller_invariant:
  "restart_limit (controller_run k obs) = k
   \<and> restarts_used (controller_run k obs) = teardowns (controller_run k obs)
   \<and> restarts_used (controller_run k obs) \<le> k + 1
   \<and> (restarts_used (controller_run k obs) > k \<longrightarrow> phase_of (controller_run k obs) = FAILED_FATAL)
   \<and> (phase_of (controller_run k obs) = INIT \<longrightarrow> restarts_used (controller_run k obs) = 0)"
proof (induction obs rule: rev_induct)
  case Nil
  show ?case by (simp add: controller_run_Nil controller_init_def)
next
  case (snoc ob obs)
  then show ?case
    unfolding controller_run_snoc
    by (cases "phase_of (controller_run k obs)"; cases ob) (auto simp: teardown_def Let_def)
qed

lemma restarts_used_step:
  "restarts_used (controller_run k (obs @ [ob])) =
     restarts_used (controller_run k obs)
     + (if phase_of (controller_run k obs) = RUNNING \<and> (ob = WorkerFailed \<or> ob = RoundSuperseded)
        then 1 else 0)"
  using controller_invariant [of k obs] unfolding controller_run_snoc
  by (cases "phase_of (controller_run k obs)"; cases ob) (auto simp: teardown_def Let_def)

lemma fatal_without_timeout:
  "RendezvousTimeout \<notin> set obs \<Longrightarrow> phase_of (controller_run k obs) = FAILED_FATAL
     \<Longrightarrow> restarts_used (controller_run k obs) > k"
proof (induction obs rule: rev_induct)
  case Nil
  then show ?case by (simp add: controller_run_Nil controller_init_def)
next
  case (snoc ob obs)
  with controller_invariant [of k obs] show ?case
    unfolding controller_run_snoc
    by (cases "phase_of (controller_run k obs)"; cases ob)
       (auto simp: teardown_def Let_def split: if_splits)
qed

lemma failing_cycles:
  "set fs \<subseteq> {WorkerFailed, RoundSuperseded} \<Longrightarrow> length fs \<le> k \<Longrightarrow>
     controller_run k (ConfigRead # concat (map (\<lambda>f. [RendezvousComplete, f]) fs)) =
       \<lparr>phase_of = NEGOTIATING, restarts_used = length fs, restart_limit = k,
        teardowns = length fs\<rparr>"
proof (induction fs rule: rev_induct)
  case Nil
  show ?case by (simp add: controller_run_def controller_init_def)
next
  case (snoc f fs)
  then have ih: "controller_run k (ConfigRead # concat (map (\<lambda>f. [RendezvousComplete, f]) fs)) =
       \<lparr>phase_of = NEGOTIATING, restarts_used = length fs, restart_limit = k,
        teardowns = length fs\<rparr>" by simp
  have f: "f = WorkerFailed \<or> f = RoundSuperseded" using snoc.prems by auto
  have "controller_run k (ConfigRead # concat (map (\<lambda>f. [RendezvousComplete, f]) (fs @ [f]))) =
        controller_step (controller_step
          (controller_run k (ConfigRead # concat (map (\<lambda>f. [RendezvousComplete, f]) fs)))
          RendezvousComplete) f"
    by (simp add: controller_run_def)
  with ih f snoc.prems show ?case by (auto simp: teardown_def Let_def)
qed

lemma clean_after_failing_cycles:
  assumes "set fs \<subseteq> {WorkerFailed, RoundSuperseded}" and "length fs \<le> k"
  shows "controller_run k (ConfigRead # concat (map (\<lambda>f. [RendezvousComplete, f]) fs)
                           @ [RendezvousComplete, AllExitedZero]) =
       \<lparr>phase_of = SUCCEEDED, restarts_used = length fs, restart_limit = k,
        teardowns = length fs\<rparr>"
proof -
  have "controller_run k (ConfigRead # concat (map (\<lambda>f. [RendezvousComplete, f]) fs)
                           @ [RendezvousComplete, AllExitedZero]) =
        controller_step (controller_step
          (controller_run k (ConfigRead # concat (map (\<lambda>f. [RendezvousComplete, f]) fs)))
          RendezvousComplete) AllExitedZero"
    by (simp add: controller_run_def)
  with failing_cycles [OF assms] show ?thesis by simp
qed

text \<open>
  Claim C8, as stated, fails: a rendezvous timeout in \<open>NEGOTIATING\<close> leads to
  \<open>FAILED_FATAL\<close> while \<open>restarts_used\<close> is still 0 and does not exceed
  \<open>max_restarts = 3\<close>.
\<close>

theorem fatal_on_timeout_counterexample:
  "phase_of (controller_run 3 [ConfigRead, RendezvousTimeout]) = FAILED_FATAL
   \<and> \<not> restarts_used (controller_run 3 [ConfigRead, RendezvousTimeout])
         > restart_limit (controller_run 3 [ConfigRead, RendezvousTimeout])"
  by (simp add: controller_run_def controller_init_def)

text \<open>
  Claim C8, amended. Across one run of the restart controller, \<open>restarts_used\<close>
  starts at 0 and increases by exactly 1 per whole-group teardown (a worker failure or a
  superseded rendezvous round while \<open>RUNNING\<close>) and by nothing else; it never goes
  beyond \<open>max_restarts + 1\<close>, and once it exceeds \<open>max_restarts\<close> the controller is in
  \<open>FAILED_FATAL\<close>. In a run without a rendezvous timeout the controller is in
  \<open>FAILED_FATAL\<close> exactly when \<open>restarts_used\<close> exceeds \<open>max_restarts\<close>, never
  before. With \<open>max_restarts = k\<close>, \<open>k\<close> failing cycles followed by a clean run reach
  \<open>SUCCEEDED\<close> with \<open>restarts_used = k\<close>.
\<close>

theorem restart_accounting:
  "restarts_used (controller_init k) = 0
   \<and> restarts_used (controller_run k (obs @ [ob])) =
       restarts_used (controller_run k obs)
       + (if phase_of (controller_run k obs) = RUNNING \<and> (ob = WorkerFailed \<or> ob = RoundSuperseded)
          then 1 else 0)
   \<and> restarts_used (controller_run k obs) = teardowns (controller_run k obs)
   \<and> restarts_used (controller_run k obs) \<le> k + 1
   \<and> (restarts_used (controller_run k obs) > k \<longrightarrow> phase_of (controller_run k obs) = FAILED_FATAL)
   \<and> (RendezvousTimeout \<notin> set obs \<longrightarrow>
        (phase_of (controller_run k obs) = FAILED_FATAL \<longleftrightarrow> restarts_used (controller_run k obs) > k))
   \<and> (set fs \<subseteq> {WorkerFailed, RoundSuperseded} \<and> length fs = k \<longrightarrow>
        phase_of (controller_run k (ConfigRead # concat (map (\<lambda>f. [RendezvousComplete, f]) fs)
                                    @ [RendezvousComplete, AllExitedZero])) = SUCCEEDED
        \<and> restarts_used (controller_run k (ConfigRead # concat (map (\<lambda>f. [RendezvousComplete, f]) fs)
                                    @ [RendezvousComplete, AllExitedZero])) = k)"
proof -
  have a: "restarts_used (controller_init k) = 0" by (simp add: controller_init_def)
  have f: "RendezvousTimeout \<notin> set obs \<longrightarrow>
        (phase_of (controller_run k obs) = FAILED_FATAL \<longleftrightarrow> restarts_used (controller_run k obs) > k)"
    using fatal_without_timeout [of obs k] controller_invariant [of k obs] by blast
  have g: "set fs \<subseteq> {WorkerFailed, RoundSuperseded} \<and> length fs = k \<longrightarrow>
        phase_of (controller_run k (ConfigRead # concat (map (\<lambda>f. [RendezvousComplete, f]) fs)
                                    @ [RendezvousComplete, AllExitedZero])) = SUCCEEDED
        \<and> restarts_used (controller_run k (ConfigRead # concat (map (\<lambda>f. [RendezvousComplete, f]) fs)
                                    @ [RendezvousComplete, AllExitedZero])) = k"
    using clean_after_failing_cycles [of fs k] by simp
  from a restarts_used_step [of k obs ob] controller_invariant [of k obs] f g
  show ?thesis by blast
qed

theorem restart_accounting_witness:
  "RendezvousTimeout \<notin> set [ConfigRead, RendezvousComplete, WorkerFailed, RendezvousComplete]
   \<and> phase_of (controller_run 1 [ConfigRead, RendezvousComplete, WorkerFailed, RendezvousComplete]) \<noteq> FAILED_FATAL
   \<and> \<not> restarts_used (controller_run 1 [ConfigRead, RendezvousComplete, WorkerFailed, RendezvousComplete]) > 1
   \<and> restarts_used (controller_run 1 [ConfigRead, RendezvousComplete, WorkerFailed, RendezvousComplete, RoundSuperseded]) = 2
   \<and> phase_of (controller_run 1 [ConfigRead, RendezvousComplete, WorkerFailed, RendezvousComplete, RoundSuperseded]) = FAILED_FATAL
   \<and> set [RoundSuperseded] \<subseteq> {WorkerFailed, RoundSuperseded} \<and> length [RoundSuperseded] = (1::nat)
   \<and> phase_of (controller_run 1 [ConfigRead, RendezvousComplete, RoundSuperseded, RendezvousComplete, AllExitedZero]) = SUCCEEDED"
  using restart_accounting [of 1 "[ConfigRead, RendezvousComplete, WorkerFailed, RendezvousComplete]"
                               RoundSuperseded "[RoundSuperseded]"]
        restart_accounting [of 1 "[ConfigRead, RendezvousComplete, WorkerFailed, RendezvousComplete, RoundSuperseded]"
                               RoundSuperseded "[RoundSuperseded]"]
  by (simp add: controller_run_def controller_init_def teardown_def)

section \<open>Properties of the argument parsers\<close>

lemma split_on_nonempty: "split_on c s \<noteq> []"
  by (induction s) (auto split: list.splits)

lemma split_on_length: "length (split_on c s) = Suc (count_list s c)"
  using split_on_nonempty [of c]
  by (induction s) (auto split: list.splits)

lemma split_on_no_sep: "c \<notin> set s \<Longrightarrow> split_on c s = [s]"
  by (induction s) auto

lemma split_on_one_sep:
  "count_list s c = 1 \<Longrightarrow>
     split_on c s = [takeWhile (\<lambda>x. x \<noteq> c) s, tl (dropWhile (\<lambda>x. x \<noteq> c) s)]"
proof (induction s)
  case Nil
  then show ?case by simp
next
  case (Cons x xs)
  show ?case
  proof (cases "x = c")
    case True
    with Cons.prems have "c \<notin> set xs" by (simp add: count_list_0_iff)
    with True show ?thesis by (simp add: split_on_no_sep)
  next
    case False
    with Cons show ?thesis by simp
  qed
qed

lemma split_on_many_sep:
  "2 \<le> count_list s c \<Longrightarrow> \<exists>x y z zs. split_on c s = x # y # z # zs"
proof -
  assume "2 \<le> count_list s c"
  then have "3 \<le> length (split_on c s)" by (simp add: split_on_length)
  then show ?thesis
    by (auto simp: numeral_3_eq_3 Suc_le_length_iff)
qed

text \<open>
  Claim C5. For every text given as \<open>nnodes\<close>: with no colon,
  \<open>parse_min_max_nnodes\<close> returns \<open>(n, n)\<close> for the integer value \<open>n\<close> of the text;
  with exactly one colon it returns the integer values of the text before and of the
  text after the colon; with two or more colons it raises \<open>RuntimeError\<close>. Where a
  field is no integer literal, \<open>int\<close> raises its \<open>ValueError\<close>.
\<close>

theorem parse_min_max_nnodes_cases:
  "(count_list s CHR '':'' = 0 \<longrightarrow>
      parse_min_max_nnodes s =
        (case py_int s of None \<Rightarrow> Inl (int_error s) | Some n \<Rightarrow> Inr (n, n)))
   \<and> (count_list s CHR '':'' = 1 \<longrightarrow>
      parse_min_max_nnodes s =
        (case py_int (takeWhile (\<lambda>x. x \<noteq> CHR '':'') s) of
           None \<Rightarrow> Inl (int_error (takeWhile (\<lambda>x. x \<noteq> CHR '':'') s))
         | Some lo \<Rightarrow>
             (case py_int (tl (dropWhile (\<lambda>x. x \<noteq> CHR '':'') s)) of
                None \<Rightarrow> Inl (int_error (tl (dropWhile (\<lambda>x. x \<noteq> CHR '':'') s)))
              | Some hi \<Rightarrow> Inr (lo, hi))))
   \<and> (2 \<le> count_list s CHR '':'' \<longrightarrow>
      parse_min_max_nnodes s =
        Inl (RuntimeError (''nnodes='' @ s @ '' is not in '' @ [CHR 0x22] @ ''MIN:MAX''
                           @ [CHR 0x22] @ '' format'')))"
proof (intro conjI impI)
  assume "count_list s CHR '':'' = 0"
  then have "split_on CHR '':'' s = [s]" by (simp add: count_list_0_iff split_on_no_sep)
  then show "parse_min_max_nnodes s =
        (case py_int s of None \<Rightarrow> Inl (int_error s) | Some n \<Rightarrow> Inr (n, n))"
    by (simp add: parse_min_max_nnodes_def)
next
  assume "count_list s CHR '':'' = 1"
  from split_on_one_sep [OF this]
  show "parse_min_max_nnodes s =
        (case py_int (takeWhile (\<lambda>x. x \<noteq> CHR '':'') s) of
           None \<Rightarrow> Inl (int_error (takeWhile (\<lambda>x. x \<noteq> CHR '':'') s))
         | Some lo \<Rightarrow>
             (case py_int (tl (dropWhile (\<lambda>x. x \<noteq> CHR '':'') s)) of
                None \<Rightarrow> Inl (int_error (tl (dropWhile (\<lambda>x. x \<noteq> CHR '':'') s)))
              | Some hi \<Rightarrow> Inr (lo, hi)))"
    by (simp add: parse_min_max_nnodes_def)
next
  assume "2 \<le> count_list s CHR '':''"
  from split_on_many_sep [OF this] obtain x y z zs
    where "split_on CHR '':'' s = x # y # z # zs" by blast
  then show "parse_min_max_nnodes s =
        Inl (RuntimeError (''nnodes='' @ s @ '' is not in '' @ [CHR 0x22] @ ''MIN:MAX''
                           @ [CHR 0x22] @ '' format''))"
    by (simp add: parse_min_max_nnodes_def)
qed

lemma py_int_examples:
  "py_int ''3'' = Some 3" "py_int ''4'' = Some 4" "py_int ''1'' = Some 1"
  by code_simp+

theorem parse_min_max_nnodes_cases_witness:
  "count_list ''3'' CHR '':'' = 0 \<and> parse_min_max_nnodes ''3'' = Inr (3, 3)
   \<and> count_list ''1:4'' CHR '':'' = 1 \<and> parse_min_max_nnodes ''1:4'' = Inr (1, 4)
   \<and> (2::nat) \<le> count_list ''1:2:3'' CHR '':''
   \<and> parse_min_max_nnodes ''1:2:3'' =
        Inl (RuntimeError (''nnodes=1:2:3 is not in '' @ [CHR 0x22] @ ''MIN:MAX''
                           @ [CHR 0x22] @ '' format''))"
  using parse_min_max_nnodes_cases [of "''3''"] parse_min_max_nnodes_cases [of "''1:4''"]
        parse_min_max_nnodes_cases [of "''1:2:3''"] py_int_examples
  by simp

lemma py_int_keywords:
  "py_int ''cpu'' = None" "py_int ''gpu'' = None" "py_int ''auto'' = None"
  by code_simp+

text \<open>
  Claim C1, amended. For every text given as \<open>nproc_per_node\<close>: if it is an integer
  literal, \<open>determine_local_world_size\<close> returns that integer; if it is \<open>cpu\<close> it returns
  \<open>os.cpu_count()\<close>; if it is \<open>gpu\<close> it returns the CUDA device count, and raises
  \<open>ValueError\<close> when CUDA is unavailable; if it is \<open>auto\<close> it returns the CUDA device
  count when CUDA is available and \<open>os.cpu_count()\<close> otherwise; for every other text it
  raises \<open>ValueError\<close>. Whenever \<open>os.cpu_count()\<close> is determined, every value it
  returns is an integer.
\<close>

theorem determine_local_world_size_cases:
  "(py_int npn = Some n \<longrightarrow> fst (determine_local_world_size h npn st) = Inr (Some n))
   \<and> (npn = ''cpu'' \<longrightarrow> fst (determine_local_world_size h npn st) = Inr (os_cpu_count h))
   \<and> (npn = ''gpu'' \<longrightarrow>
        fst (determine_local_world_size h npn st) =
          (if cuda_is_available h then Inr (Some (cuda_device_count h))
           else Inl (ValueError ''Cuda is not available.'')))
   \<and> (npn = ''auto'' \<longrightarrow>
        fst (determine_local_world_size h npn st) =
          (if cuda_is_available h then Inr (Some (cuda_device_count h))
           else Inr (os_cpu_count h)))
   \<and> (py_int npn = None \<and> npn \<noteq> ''cpu'' \<and> npn \<noteq> ''gpu'' \<and> npn \<noteq> ''auto'' \<longrightarrow>
        fst (determine_local_world_size h npn st) =
          Inl (ValueError (''Unsupported nproc_per_node value: '' @ npn)))
   \<and> (os_cpu_count h \<noteq> None \<and> fst (determine_local_world_size h npn st) = Inr v \<longrightarrow> v \<noteq> None)"
  using py_int_keywords
  by (auto simp: determine_local_world_size_def log_num_proc_def Let_def split: option.splits if_splits)

text \<open>
  Claim C1, as stated, fails: where \<open>os.cpu_count()\<close> is \<open>None\<close>, the text \<open>cpu\<close>
  resolves to \<open>None\<close>, which is no integer.
\<close>

theorem undetermined_cpu_count_counterexample:
  "fst (determine_local_world_size undetermined_host ''cpu'' fresh_proc) = Inr None"
  using py_int_keywords
  by (simp add: determine_local_world_size_def log_num_proc_def undetermined_host_def cpu_host_def)

lemma py_int_more:
  "py_int ''8'' = Some 8" "py_int ''many'' = None"
  by code_simp+

theorem determine_local_world_size_cases_witness:
  "py_int ''8'' = Some 8 \<and> fst (determine_local_world_size cpu_host ''8'' fresh_proc) = Inr (Some 8)
   \<and> fst (determine_local_world_size cpu_host ''cpu'' fresh_proc) = Inr (Some 4)
   \<and> fst (determine_local_world_size cpu_host ''gpu'' fresh_proc) = Inl (ValueError ''Cuda is not available.'')
   \<and> fst (determine_local_world_size cpu_host ''auto'' fresh_proc) = Inr (Some 4)
   \<and> py_int ''many'' = None
   \<and> fst (determine_local_world_size cpu_host ''many'' fresh_proc) =
        Inl (ValueError ''Unsupported nproc_per_node value: many'')
   \<and> os_cpu_count cpu_host \<noteq> None"
  using determine_local_world_size_cases [of "''8''" 8 cpu_host fresh_proc "Some 8"]
        determine_local_world_size_cases [of "''cpu''" 0 cpu_host fresh_proc "Some 4"]
        determine_local_world_size_cases [of "''gpu''" 0 cpu_host fresh_proc "Some 4"]
        determine_local_world_size_cases [of "''auto''" 0 cpu_host fresh_proc "Some 4"]
        determine_local_world_size_cases [of "''many''" 0 cpu_host fresh_proc "Some 4"]
        py_int_more
  by (simp add: cpu_host_def)

section \<open>How \<open>config_from_args\<close> proceeds\<close>

lemma emit_environ: "environ (emit e st) = environ st"
  by (simp add: emit_def)

lemma emit_emitted: "emitted (emit e st) = emitted st @ [e]"
  by (simp add: emit_def)

lemma determine_environ:
  "environ (snd (determine_local_world_size h npn st)) = environ st"
  by (simp add: determine_local_world_size_def log_num_proc_def emit_environ Let_def
           split: option.splits)

lemma determine_emits:
  "length (emitted st) < length (emitted (snd (determine_local_world_size h npn st)))"
  by (simp add: determine_local_world_size_def log_num_proc_def emit_emitted Let_def
           split: option.splits)

lemma determine_no_assertion:
  "fst (determine_local_world_size h npn st) \<noteq> Inl AssertionError"
  by (simp add: determine_local_world_size_def log_num_proc_def Let_def split: option.splits)

lemma set_omp_environ:
  "set_omp_num_threads npn st = Inr st2 \<Longrightarrow>
     environ st2 =
       (if environ st ''OMP_NUM_THREADS'' = None \<and> (\<exists>n. npn = Some n \<and> 1 < n)
        then (environ st)(''OMP_NUM_THREADS'' \<mapsto> str_int 1) else environ st)"
  by (auto simp: set_omp_num_threads_def emit_def split: if_splits option.splits)

lemma set_omp_error:
  "set_omp_num_threads npn st = Inl e \<Longrightarrow>
     environ st ''OMP_NUM_THREADS'' = None \<and> npn = None \<and> e \<noteq> AssertionError"
  by (auto simp: set_omp_num_threads_def split: if_splits option.splits)

lemma build_cmd_environ: "environ (snd (build_cmd h X a st)) = environ st"
  by (simp add: build_cmd_def emit_environ Let_def)

lemma build_cmd_result:
  "fst (build_cmd h X a st) =
     (if no_python a \<and> \<not> use_env a then
        Inl (ValueError (''When using the '' @ quoted ''--no_python'' @ '' flag,''
                         @ '' you must also set the '' @ quoted ''--use_env'' @ '' flag.''))
      else if no_python a \<and> module a then
        Inl (ValueError (''Don'' @ [CHR 0x27] @ ''t use both the '' @ quoted ''--no_python''
                         @ '' flag'' @ '' and the '' @ quoted ''--module''
                         @ '' flag at the same time.''))
      else
        Inr ((if no_python a then []
              else [sys_executable h, ''-u''] @ (if module a then [''-m''] else []))
             @ [training_script a]
             @ (if use_env a then [] else [''--local_rank='' @ macros_local_rank X])
             @ training_script_args a))"
  by (simp add: build_cmd_def Let_def)

lemma make_config_error:
  "make_config X a lo hi npn = Inl e \<Longrightarrow>
     parse_rendezvous_config X (rdzv_conf a) = Inl e
     \<or> std_from_str X (redirects a) = Inl e \<or> std_from_str X (tee a) = Inl e"
  by (auto simp: make_config_def Let_def split: sum.splits)

lemma make_config_fields:
  "make_config X a lo hi npn = Inr config \<Longrightarrow>
     cfg_min_nodes config = lo \<and> cfg_max_nodes config = hi \<and> cfg_nproc_per_node config = npn
     \<and> cfg_run_id config = rdzv_id a \<and> cfg_role config = role a
     \<and> cfg_rdzv_endpoint config = get_rdzv_endpoint a
     \<and> cfg_rdzv_backend config = rdzv_backend a
     \<and> cfg_max_restarts config = max_restarts a
     \<and> cfg_monitor_interval config = monitor_interval a
     \<and> cfg_start_method config = start_method a
     \<and> std_from_str X (redirects a) = Inr (cfg_redirects config)
     \<and> std_from_str X (tee a) = Inr (cfg_tee config)
     \<and> (\<exists>parsed. parse_rendezvous_config X (rdzv_conf a) = Inr parsed
          \<and> cfg_rdzv_configs config =
              (if rdzv_backend a = ''static''
               then (map_option StrV \<circ> parsed)(''rank'' \<mapsto> IntV (node_rank a))
               else map_option StrV \<circ> parsed))"
  by (auto simp: make_config_def Let_def split: sum.splits)

text \<open>What \<open>config_from_args\<close> does once the node bounds are parsed and both assertions hold.\<close>

lemma config_from_args_past_asserts:
  assumes "parse_min_max_nnodes (nnodes a) = Inr (lo, hi)"
    and "0 < lo" and "lo \<le> hi" and "0 \<le> max_restarts a"
    and "determine_local_world_size h (nproc_per_node a) st = (r, st1)"
  shows "config_from_args h X a st =
     (case r of
        Inl e \<Rightarrow> (Inl e, st1)
      | Inr npn \<Rightarrow>
          (case set_omp_num_threads npn st1 of
             Inl e \<Rightarrow> (Inl e, st1)
           | Inr st2 \<Rightarrow>
               (case make_config X a lo hi npn of
                  Inl e \<Rightarrow> (Inl e, st2)
                | Inr config \<Rightarrow>
                    (map_sum id (Pair config) (fst (build_cmd h X a st2)),
                     snd (build_cmd h X a st2)))))"
  using assms
  by (auto simp: config_from_args_def split: sum.splits prod.splits)

lemma config_from_args_before_asserts:
  "parse_min_max_nnodes (nnodes a) = Inl e \<Longrightarrow> config_from_args h X a st = (Inl e, st)"
  "parse_min_max_nnodes (nnodes a) = Inr (lo, hi) \<Longrightarrow> \<not> (0 < lo \<and> lo \<le> hi \<and> 0 \<le> max_restarts a)
     \<Longrightarrow> config_from_args h X a st = (Inl AssertionError, st)"
  by (auto simp: config_from_args_def)

lemma build_cmd_fst_state: "fst (build_cmd h X a st) = fst (build_cmd h X a st')"
  by (simp add: build_cmd_result)

lemma set_omp_succeeds:
  "environ st ''OMP_NUM_THREADS'' \<noteq> None \<or> npn \<noteq> None \<Longrightarrow>
     \<exists>st2. set_omp_num_threads npn st = Inr st2"
  by (auto simp: set_omp_num_threads_def split: option.splits)

lemma config_from_args_determine_error:
  assumes "parse_min_max_nnodes (nnodes a) = Inr (lo, hi)"
    and "0 < lo" and "lo \<le> hi" and "0 \<le> max_restarts a"
    and "fst (determine_local_world_size h (nproc_per_node a) st) = Inl e"
  shows "fst (config_from_args h X a st) = Inl e"
proof -
  obtain r st1 where d: "determine_local_world_size h (nproc_per_node a) st = (r, st1)"
    by (cases "determine_local_world_size h (nproc_per_node a) st") blast
  with assms(5) have "r = Inl e" by simp
  with config_from_args_past_asserts [OF assms(1-4) d, of X] show ?thesis by simp
qed

lemma config_from_args_result:
  assumes "parse_min_max_nnodes (nnodes a) = Inr (lo, hi)"
    and "0 < lo" and "lo \<le> hi" and "0 \<le> max_restarts a"
    and "fst (determine_local_world_size h (nproc_per_node a) st) = Inr npn"
    and "environ st ''OMP_NUM_THREADS'' \<noteq> None \<or> npn \<noteq> None"
  shows "fst (config_from_args h X a st) =
     (case make_config X a lo hi npn of
        Inl e \<Rightarrow> Inl e
      | Inr config \<Rightarrow> map_sum id (Pair config) (fst (build_cmd h X a st)))"
proof -
  obtain r st1 where d: "determine_local_world_size h (nproc_per_node a) st = (r, st1)"
    by (cases "determine_local_world_size h (nproc_per_node a) st") blast
  with assms(5) have r: "r = Inr npn" by simp
  from d have "environ st1 = environ st"
    using determine_environ [of h "nproc_per_node a" st] by simp
  with assms(6) obtain st2 where s: "set_omp_num_threads npn st1 = Inr st2"
    using set_omp_succeeds [of st1 npn] by auto
  from config_from_args_past_asserts [OF assms(1-4) d, of X] r s
  show ?thesis
    using build_cmd_fst_state [of h X a st2 st]
    by (simp split: sum.splits)
qed

lemma config_from_args_success:
  assumes "fst (config_from_args h X a st) = Inr (config, cmd)"
  shows "\<exists>lo hi npn. parse_min_max_nnodes (nnodes a) = Inr (lo, hi)
           \<and> 0 < lo \<and> lo \<le> hi \<and> 0 \<le> max_restarts a
           \<and> fst (determine_local_world_size h (nproc_per_node a) st) = Inr npn
           \<and> make_config X a lo hi npn = Inr config
           \<and> fst (build_cmd h X a st) = Inr cmd"
proof (cases "parse_min_max_nnodes (nnodes a)")
  case (Inl e)
  with assms show ?thesis by (simp add: config_from_args_before_asserts(1))
next
  case (Inr b)
  obtain lo hi where b: "b = (lo, hi)" by (cases b)
  with Inr have p: "parse_min_max_nnodes (nnodes a) = Inr (lo, hi)" by simp
  have ok: "0 < lo \<and> lo \<le> hi \<and> 0 \<le> max_restarts a"
  proof (rule ccontr)
    assume "\<not> (0 < lo \<and> lo \<le> hi \<and> 0 \<le> max_restarts a)"
    from config_from_args_before_asserts(2) [OF p this, of h X st] assms
    show False by simp
  qed
  obtain r st1 where d: "determine_local_world_size h (nproc_per_node a) st = (r, st1)"
    by (cases "determine_local_world_size h (nproc_per_node a) st") blast
  from ok have c: "0 < lo" "lo \<le> hi" "0 \<le> max_restarts a" by simp_all
  note eq = config_from_args_past_asserts [OF p c d, of X]
  from eq assms obtain npn where r: "r = Inr npn" by (cases r) simp_all
  from eq assms r obtain st2 where s: "set_omp_num_threads npn st1 = Inr st2"
    by (cases "set_omp_num_threads npn st1") simp_all
  from eq assms r s have m: "make_config X a lo hi npn = Inr config"
    by (cases "make_config X a lo hi npn"; cases "fst (build_cmd h X a st2)") auto
  from eq assms r s m have "fst (build_cmd h X a st2) = Inr cmd"
    by (cases "fst (build_cmd h X a st2)") auto
  then have "fst (build_cmd h X a st) = Inr cmd"
    using build_cmd_fst_state [of h X a st2 st] by simp
  with p ok d r m show ?thesis by auto
qed

lemma config_from_args_environ_eq:
  "environ (snd (config_from_args h X a st)) =
     (if (\<exists>lo hi n. parse_min_max_nnodes (nnodes a) = Inr (lo, hi)
            \<and> 0 < lo \<and> lo \<le> hi \<and> 0 \<le> max_restarts a
            \<and> fst (determine_local_world_size h (nproc_per_node a) st) = Inr (Some n) \<and> 1 < n)
         \<and> environ st ''OMP_NUM_THREADS'' = None
      then (environ st)(''OMP_NUM_THREADS'' \<mapsto> str_int 1) else environ st)"
proof (cases "parse_min_max_nnodes (nnodes a)")
  case (Inl e)
  then show ?thesis by (simp add: config_from_args_before_asserts(1))
next
  case (Inr b)
  obtain lo hi where b: "b = (lo, hi)" by (cases b)
  with Inr have p: "parse_min_max_nnodes (nnodes a) = Inr (lo, hi)" by simp
  show ?thesis
  proof (cases "0 < lo \<and> lo \<le> hi \<and> 0 \<le> max_restarts a")
    case False
    from config_from_args_before_asserts(2) [OF p False, of h X st] p False
    show ?thesis by auto
  next
    case True
    then have c: "0 < lo" "lo \<le> hi" "0 \<le> max_restarts a" by simp_all
    obtain r st1 where d: "determine_local_world_size h (nproc_per_node a) st = (r, st1)"
      by (cases "determine_local_world_size h (nproc_per_node a) st") blast
    then have e1: "environ st1 = environ st"
      using determine_environ [of h "nproc_per_node a" st] by simp
    note eq = config_from_args_past_asserts [OF p c d, of X]
    show ?thesis
    proof (cases r)
      case (Inl e)
      with eq e1 d show ?thesis by auto
    next
      case (Inr npn)
      show ?thesis
      proof (cases "set_omp_num_threads npn st1")
        case (Inl e)
        from set_omp_error [OF Inl] eq Inr Inl e1 d show ?thesis by auto
      next
        case s: (Inr st2)
        from set_omp_environ [OF s] e1
        have e2: "environ st2 =
            (if environ st ''OMP_NUM_THREADS'' = None \<and> (\<exists>n. npn = Some n \<and> 1 < n)
             then (environ st)(''OMP_NUM_THREADS'' \<mapsto> str_int 1) else environ st)" by auto
        have "environ (snd (config_from_args h X a st)) = environ st2"
          using eq Inr s build_cmd_environ [of h X a st2]
          by (cases "make_config X a lo hi npn") simp_all
        with e2 p True d Inr show ?thesis by auto
      qed
    qed
  qed
qed

section \<open>Concrete runs of \<open>config_from_args\<close>\<close>

lemma py_int_0: "py_int ''0'' = Some 0"
  by code_simp

lemma str_int_examples: "str_int 1 = ''1''" "str_int 29500 = ''29500''"
  by (simp_all add: str_int_def str_nat.simps digit_char_def)

lemma default_args_fields:
  "nnodes (default_args s ss) = ''1:1''"
  "nproc_per_node (default_args s ss) = ''auto''"
  "rdzv_backend (default_args s ss) = ''static''"
  "rdzv_endpoint (default_args s ss) = ''''"
  "rdzv_id (default_args s ss) = ''none''"
  "rdzv_conf (default_args s ss) = ''''"
  "standalone (default_args s ss) = False"
  "max_restarts (default_args s ss) = 3"
  "monitor_interval (default_args s ss) = 5"
  "start_method (default_args s ss) = ''spawn''"
  "role (default_args s ss) = ''default''"
  "module (default_args s ss) = False"
  "no_python (default_args s ss) = False"
  "redirects (default_args s ss) = ''0''"
  "tee (default_args s ss) = ''0''"
  "node_rank (default_args s ss) = 0"
  "master_addr (default_args s ss) = ''127.0.0.1''"
  "master_port (default_args s ss) = 29500"
  "training_script (default_args s ss) = s"
  "training_script_args (default_args s ss) = ss"
  "use_env (default_args s ss) = True"
  by (simp_all add: default_args_def)

lemma parse_examples:
  "parse_min_max_nnodes ''1:1'' = Inr (1, 1)"
  "parse_min_max_nnodes ''0'' = Inr (0, 0)"
  by (simp_all add: parse_min_max_nnodes_def py_int_examples py_int_0)

lemma determine_examples:
  "fst (determine_local_world_size cpu_host ''auto'' st) = Inr (Some 4)"
  "fst (determine_local_world_size cpu_host ''gpu'' st) = Inl (ValueError ''Cuda is not available.'')"
  "fst (determine_local_world_size cpu_host ''many'' st) =
     Inl (ValueError ''Unsupported nproc_per_node value: many'')"
  "fst (determine_local_world_size undetermined_host ''cpu'' st) = Inr None"
  by (simp_all add: determine_local_world_size_def log_num_proc_def cpu_host_def
        undetermined_host_def py_int_keywords py_int_more)

lemma plain_externals_fields:
  "parse_rendezvous_config plain_externals s = Inr (if s = [] then Map.empty else [''conf'' \<mapsto> s])"
  "std_from_str plain_externals s = Inr s"
  "macros_local_rank plain_externals = ''${local_rank}''"
  "elastic_launch plain_externals c ep rest st = (Inr (), st)"
  by (simp_all add: plain_externals_def)

lemma make_config_default:
  "make_config plain_externals (default_args s ss) 1 1 (Some 4) = Inr default_config"
  by (simp add: make_config_def default_args_fields plain_externals_fields get_rdzv_endpoint_def
        str_int_examples default_config_def)

lemma cpu_host_fields:
  "os_cpu_count cpu_host = Some 4" "cuda_is_available cpu_host = False"
  "sys_executable cpu_host = ''/usr/bin/python3''"
  "etcd_endpoint cpu_host = ''localhost:2379''"
  by (simp_all add: cpu_host_def)

lemma build_cmd_default:
  "fst (build_cmd cpu_host plain_externals (default_args s ss) st) =
     Inr ([''/usr/bin/python3'', ''-u'', s] @ ss)"
  by (simp add: build_cmd_result default_args_fields cpu_host_fields)

lemma config_from_args_default:
  "fst (config_from_args cpu_host plain_externals (default_args ''train.py'' [''--lr'']) fresh_proc) =
     Inr (default_config, [''/usr/bin/python3'', ''-u'', ''train.py'', ''--lr''])"
proof -
  have p: "parse_min_max_nnodes (nnodes (default_args ''train.py'' [''--lr''])) = Inr (1, 1)"
    by (simp add: default_args_fields parse_examples)
  have d: "fst (determine_local_world_size cpu_host
                  (nproc_per_node (default_args ''train.py'' [''--lr''])) fresh_proc) = Inr (Some 4)"
    by (simp add: default_args_fields determine_examples)
  have m: "0 \<le> max_restarts (default_args ''train.py'' [''--lr''])"
    by (simp add: default_args_fields)
  have o: "environ fresh_proc ''OMP_NUM_THREADS'' \<noteq> None \<or> Some (4::int) \<noteq> None"
    by simp
  have "fst (config_from_args cpu_host plain_externals (default_args ''train.py'' [''--lr'']) fresh_proc) =
     (case make_config plain_externals (default_args ''train.py'' [''--lr'']) 1 1 (Some 4) of
        Inl e \<Rightarrow> Inl e
      | Inr config \<Rightarrow>
          map_sum id (Pair config)
            (fst (build_cmd cpu_host plain_externals (default_args ''train.py'' [''--lr'']) fresh_proc)))"
    by (rule config_from_args_result [OF p _ _ m d o]) simp_all
  then show ?thesis
    by (simp only: make_config_default build_cmd_default sum.case map_sum.simps id_apply append.simps)
qed

lemma config_from_args_on_cpu_host:
  assumes "nnodes a = ''1:1''" and "nproc_per_node a = ''auto''" and "0 \<le> max_restarts a"
  shows "fst (config_from_args cpu_host X a st) =
     (case make_config X a 1 1 (Some 4) of
        Inl e \<Rightarrow> Inl e
      | Inr config \<Rightarrow> map_sum id (Pair config) (fst (build_cmd cpu_host X a st)))"
proof -
  have p: "parse_min_max_nnodes (nnodes a) = Inr (1, 1)"
    by (simp add: assms(1) parse_examples)
  have d: "fst (determine_local_world_size cpu_host (nproc_per_node a) st) = Inr (Some 4)"
    by (simp add: assms(2) determine_examples)
  have o: "environ st ''OMP_NUM_THREADS'' \<noteq> None \<or> Some (4::int) \<noteq> None"
    by simp
  show ?thesis
    by (rule config_from_args_result [OF p _ _ assms(3) d o]) simp_all
qed

lemma make_config_etcd:
  "make_config plain_externals
     ((default_args s ss)\<lparr>rdzv_backend := ''etcd'', rdzv_endpoint := ''etcd-host:2379'',
                           rdzv_conf := ''timeout=900''\<rparr>) 1 1 (Some 4) =
   Inr (default_config\<lparr>cfg_rdzv_endpoint := ''etcd-host:2379'', cfg_rdzv_backend := ''etcd'',
                       cfg_rdzv_configs := map_option StrV \<circ> [''conf'' \<mapsto> ''timeout=900'']\<rparr>)"
  by (simp add: make_config_def default_args_fields plain_externals_fields get_rdzv_endpoint_def
        default_config_def)

lemma config_from_args_etcd:
  "fst (config_from_args cpu_host plain_externals
          ((default_args ''train.py'' [''--lr''])
             \<lparr>rdzv_backend := ''etcd'', rdzv_endpoint := ''etcd-host:2379'',
              rdzv_conf := ''timeout=900''\<rparr>) fresh_proc) =
     Inr (default_config\<lparr>cfg_rdzv_endpoint := ''etcd-host:2379'', cfg_rdzv_backend := ''etcd'',
                         cfg_rdzv_configs := map_option StrV \<circ> [''conf'' \<mapsto> ''timeout=900'']\<rparr>,
          [''/usr/bin/python3'', ''-u'', ''train.py'', ''--lr''])"
  by (simp add: config_from_args_on_cpu_host default_args_fields make_config_etcd
        build_cmd_result cpu_host_fields)

section \<open>Properties of \<open>config_from_args\<close>\<close>

text \<open>
  Claim C3. Once \<open>args.nnodes\<close> is parsed into bounds, \<open>config_from_args\<close> raises
  \<open>AssertionError\<close> unless \<open>0 < min_nodes \<le> max_nodes\<close> and \<open>args.max_restarts \<ge> 0\<close>,
  and it does so with the process state untouched: no \<open>LaunchConfig\<close> is returned and
  \<open>determine_local_world_size\<close>, which logs on entry, has not run. Under those
  preconditions no assertion of \<open>config_from_args\<close> fails: it raises \<open>AssertionError\<close>
  only if one of the collaborators it calls does.
\<close>

theorem config_from_args_asserts:
  "parse_min_max_nnodes (nnodes a) = Inr (lo, hi) \<Longrightarrow>
     (\<not> (0 < lo \<and> lo \<le> hi \<and> 0 \<le> max_restarts a) \<longrightarrow>
        config_from_args h X a st = (Inl AssertionError, st)
        \<and> emitted (snd (determine_local_world_size h (nproc_per_node a) st)) \<noteq> emitted st)
   \<and> (0 < lo \<and> lo \<le> hi \<and> 0 \<le> max_restarts a
        \<and> parse_rendezvous_config X (rdzv_conf a) \<noteq> Inl AssertionError
        \<and> std_from_str X (redirects a) \<noteq> Inl AssertionError
        \<and> std_from_str X (tee a) \<noteq> Inl AssertionError \<longrightarrow>
        fst (config_from_args h X a st) \<noteq> Inl AssertionError)"
proof (intro conjI impI)
  assume p: "parse_min_max_nnodes (nnodes a) = Inr (lo, hi)"
    and n: "\<not> (0 < lo \<and> lo \<le> hi \<and> 0 \<le> max_restarts a)"
  from config_from_args_before_asserts(2) [OF p n]
  show "config_from_args h X a st = (Inl AssertionError, st)" .
  from determine_emits [of st h "nproc_per_node a"]
  show "emitted (snd (determine_local_world_size h (nproc_per_node a) st)) \<noteq> emitted st"
    by auto
next
  assume p: "parse_min_max_nnodes (nnodes a) = Inr (lo, hi)"
    and ok: "0 < lo \<and> lo \<le> hi \<and> 0 \<le> max_restarts a
        \<and> parse_rendezvous_config X (rdzv_conf a) \<noteq> Inl AssertionError
        \<and> std_from_str X (redirects a) \<noteq> Inl AssertionError
        \<and> std_from_str X (tee a) \<noteq> Inl AssertionError"
  then have c: "0 < lo" "lo \<le> hi" "0 \<le> max_restarts a" by simp_all
  obtain r st1 where d: "determine_local_world_size h (nproc_per_node a) st = (r, st1)"
    by (cases "determine_local_world_size h (nproc_per_node a) st") blast
  note eq = config_from_args_past_asserts [OF p c d, of X]
  show "fst (config_from_args h X a st) \<noteq> Inl AssertionError"
  proof (cases r)
    case (Inl e)
    with d determine_no_assertion [of h "nproc_per_node a" st] eq show ?thesis by auto
  next
    case r: (Inr npn)
    show ?thesis
    proof (cases "set_omp_num_threads npn st1")
      case (Inl e)
      with set_omp_error [OF Inl] eq r show ?thesis by simp
    next
      case s: (Inr st2)
      show ?thesis
      proof (cases "make_config X a lo hi npn")
        case (Inl e)
        with make_config_error [OF Inl] ok eq r s show ?thesis by auto
      next
        case (Inr config)
        have "fst (build_cmd h X a st2) \<noteq> Inl AssertionError"
          by (simp add: build_cmd_result)
        with eq r s Inr show ?thesis
          by (cases "fst (build_cmd h X a st2)") auto
      qed
    qed
  qed
qed

theorem config_from_args_asserts_witness:
  "parse_min_max_nnodes (nnodes ((default_args ''train.py'' [''--lr''])\<lparr>nnodes := ''0''\<rparr>)) = Inr (0, 0)
   \<and> config_from_args cpu_host plain_externals
        ((default_args ''train.py'' [''--lr''])\<lparr>nnodes := ''0''\<rparr>) fresh_proc =
        (Inl AssertionError, fresh_proc)
   \<and> parse_min_max_nnodes (nnodes (default_args ''train.py'' [''--lr''])) = Inr (1, 1)
   \<and> 0 \<le> max_restarts (default_args ''train.py'' [''--lr''])
   \<and> parse_rendezvous_config plain_externals (rdzv_conf (default_args ''train.py'' [''--lr'']))
        \<noteq> Inl AssertionError
   \<and> std_from_str plain_externals (redirects (default_args ''train.py'' [''--lr'']))
        \<noteq> Inl AssertionError
   \<and> std_from_str plain_externals (tee (default_args ''train.py'' [''--lr'']))
        \<noteq> Inl AssertionError
   \<and> fst (config_from_args cpu_host plain_externals (default_args ''train.py'' [''--lr''])
             fresh_proc) \<noteq> Inl AssertionError"
proof -
  have p0: "parse_min_max_nnodes (nnodes ((default_args ''train.py'' [''--lr''])\<lparr>nnodes := ''0''\<rparr>))
              = Inr (0, 0)"
    by (simp add: parse_examples)
  have p1: "parse_min_max_nnodes (nnodes (default_args ''train.py'' [''--lr''])) = Inr (1, 1)"
    by (simp add: default_args_fields parse_examples)
  from config_from_args_asserts [OF p0, where h = cpu_host and X = plain_externals and st = fresh_proc]
       config_from_args_asserts [OF p1, where h = cpu_host and X = plain_externals and st = fresh_proc]
       p0 p1
  show ?thesis
    by (simp add: default_args_fields plain_externals_fields)
qed

text \<open>
  Claim C4. For every \<open>args\<close> that \<open>config_from_args\<close> accepts, the returned
  \<open>LaunchConfig\<close> carries the bounds parsed from \<open>args.nnodes\<close>, the worker count that
  \<open>determine_local_world_size\<close> resolved, \<open>run_id = args.rdzv_id\<close>, and \<open>role\<close>,
  \<open>max_restarts\<close>, \<open>monitor_interval\<close>, \<open>start_method\<close> and \<open>rdzv_backend\<close> copied from
  \<open>args\<close>; its \<open>rdzv_endpoint\<close> is \<open>master_addr:master_port\<close> when the backend is
  \<open>static\<close> and \<open>args.rdzv_endpoint\<close> for every other backend.
\<close>

theorem config_from_args_config:
  "fst (config_from_args h X a st) = Inr (config, cmd) \<Longrightarrow>
     parse_min_max_nnodes (nnodes a) = Inr (cfg_min_nodes config, cfg_max_nodes config)
   \<and> fst (determine_local_world_size h (nproc_per_node a) st) = Inr (cfg_nproc_per_node config)
   \<and> cfg_run_id config = rdzv_id a
   \<and> cfg_role config = role a
   \<and> cfg_max_restarts config = max_restarts a
   \<and> cfg_monitor_interval config = monitor_interval a
   \<and> cfg_start_method config = start_method a
   \<and> cfg_rdzv_backend config = rdzv_backend a
   \<and> cfg_rdzv_endpoint config =
       (if rdzv_backend a = ''static'' then master_addr a @ '':'' @ str_int (master_port a)
        else rdzv_endpoint a)"
proof -
  assume "fst (config_from_args h X a st) = Inr (config, cmd)"
  from config_from_args_success [OF this] obtain lo hi npn where
    p: "parse_min_max_nnodes (nnodes a) = Inr (lo, hi)"
    and d: "fst (determine_local_world_size h (nproc_per_node a) st) = Inr npn"
    and m: "make_config X a lo hi npn = Inr config" by blast
  from make_config_fields [OF m] p d show ?thesis
    by (simp add: get_rdzv_endpoint_def)
qed

theorem config_from_args_config_witness:
  "fst (config_from_args cpu_host plain_externals (default_args ''train.py'' [''--lr'']) fresh_proc) =
     Inr (default_config, [''/usr/bin/python3'', ''-u'', ''train.py'', ''--lr''])
   \<and> parse_min_max_nnodes ''1:1'' = Inr (cfg_min_nodes default_config, cfg_max_nodes default_config)
   \<and> cfg_nproc_per_node default_config = Some 4
   \<and> cfg_run_id default_config = ''none''
   \<and> cfg_rdzv_endpoint default_config = ''127.0.0.1:29500''
   \<and> fst (config_from_args cpu_host plain_externals
          ((default_args ''train.py'' [''--lr''])
             \<lparr>rdzv_backend := ''etcd'', rdzv_endpoint := ''etcd-host:2379'',
              rdzv_conf := ''timeout=900''\<rparr>) fresh_proc) =
     Inr (default_config\<lparr>cfg_rdzv_endpoint := ''etcd-host:2379'', cfg_rdzv_backend := ''etcd'',
                         cfg_rdzv_configs := map_option StrV \<circ> [''conf'' \<mapsto> ''timeout=900'']\<rparr>,
          [''/usr/bin/python3'', ''-u'', ''train.py'', ''--lr''])
   \<and> cfg_rdzv_endpoint
        (default_config\<lparr>cfg_rdzv_endpoint := ''etcd-host:2379'', cfg_rdzv_backend := ''etcd'',
                         cfg_rdzv_configs := map_option StrV \<circ> [''conf'' \<mapsto> ''timeout=900'']\<rparr>) =
       ''etcd-host:2379''"
  using config_from_args_config [OF config_from_args_default]
        config_from_args_config [OF config_from_args_etcd]
        config_from_args_default config_from_args_etcd
  by (simp add: default_args_fields str_int_examples determine_examples)

text \<open>
  Claim C10. The \<open>rdzv_configs\<close> of the returned \<open>LaunchConfig\<close> maps \<open>rank\<close> to
  \<open>args.node_rank\<close> if and only if \<open>args.rdzv_backend\<close> is \<open>static\<close>; for every other
  backend it holds exactly the entries parsed from \<open>args.rdzv_conf\<close>.
\<close>

theorem config_from_args_rdzv_configs:
  "fst (config_from_args h X a st) = Inr (config, cmd) \<Longrightarrow>
     (\<exists>parsed. parse_rendezvous_config X (rdzv_conf a) = Inr parsed
        \<and> cfg_rdzv_configs config =
            (if rdzv_backend a = ''static''
             then (map_option StrV \<circ> parsed)(''rank'' \<mapsto> IntV (node_rank a))
             else map_option StrV \<circ> parsed))
   \<and> (cfg_rdzv_configs config ''rank'' = Some (IntV (node_rank a)) \<longleftrightarrow> rdzv_backend a = ''static'')"
proof -
  assume "fst (config_from_args h X a st) = Inr (config, cmd)"
  from config_from_args_success [OF this] obtain lo hi npn where
    m: "make_config X a lo hi npn = Inr config" by blast
  from make_config_fields [OF m] obtain parsed where
    q: "parse_rendezvous_config X (rdzv_conf a) = Inr parsed"
    and c: "cfg_rdzv_configs config =
            (if rdzv_backend a = ''static''
             then (map_option StrV \<circ> parsed)(''rank'' \<mapsto> IntV (node_rank a))
             else map_option StrV \<circ> parsed)" by blast
  have "(map_option StrV \<circ> parsed) ''rank'' \<noteq> Some (IntV (node_rank a))"
    by (cases "parsed ''rank''") simp_all
  with c have "cfg_rdzv_configs config ''rank'' = Some (IntV (node_rank a))
                 \<longleftrightarrow> rdzv_backend a = ''static''"
    by simp
  with q c show ?thesis by blast
qed

theorem config_from_args_rdzv_configs_witness:
  "fst (config_from_args cpu_host plain_externals (default_args ''train.py'' [''--lr'']) fresh_proc) =
     Inr (default_config, [''/usr/bin/python3'', ''-u'', ''train.py'', ''--lr''])
   \<and> cfg_rdzv_configs default_config ''rank'' = Some (IntV 0)
   \<and> fst (config_from_args cpu_host plain_externals
          ((default_args ''train.py'' [''--lr''])
             \<lparr>rdzv_backend := ''etcd'', rdzv_endpoint := ''etcd-host:2379'',
              rdzv_conf := ''timeout=900''\<rparr>) fresh_proc) =
     Inr (default_config\<lparr>cfg_rdzv_endpoint := ''etcd-host:2379'', cfg_rdzv_backend := ''etcd'',
                         cfg_rdzv_configs := map_option StrV \<circ> [''conf'' \<mapsto> ''timeout=900'']\<rparr>,
          [''/usr/bin/python3'', ''-u'', ''train.py'', ''--lr''])
   \<and> cfg_rdzv_configs
        (default_config\<lparr>cfg_rdzv_endpoint := ''etcd-host:2379'', cfg_rdzv_backend := ''etcd'',
                         cfg_rdzv_configs := map_option StrV \<circ> [''conf'' \<mapsto> ''timeout=900'']\<rparr>)
        ''rank'' = None"
  using config_from_args_rdzv_configs [OF config_from_args_default]
        config_from_args_rdzv_configs [OF config_from_args_etcd]
        config_from_args_default config_from_args_etcd
  by (simp add: default_config_def)

text \<open>
  Claim C6, as stated, fails at two inputs: with \<open>no_python\<close> unset,
  \<open>--nproc_per_node=many\<close> makes \<open>config_from_args\<close> raise \<open>ValueError\<close>; and with
  \<open>use_env\<close> unset the command has \<open>--local_rank=...\<close> between the training script and
  its arguments.
\<close>

theorem config_from_args_cmd_counterexample:
  "\<not> no_python ((default_args ''train.py'' [''--lr''])\<lparr>nproc_per_node := ''many''\<rparr>)
   \<and> fst (config_from_args cpu_host plain_externals
             ((default_args ''train.py'' [''--lr''])\<lparr>nproc_per_node := ''many''\<rparr>) fresh_proc) =
       Inl (ValueError ''Unsupported nproc_per_node value: many'')
   \<and> fst (config_from_args cpu_host plain_externals
             ((default_args ''train.py'' [''--lr''])\<lparr>use_env := False\<rparr>) fresh_proc) =
       Inr (default_config,
            [''/usr/bin/python3'', ''-u'', ''train.py'', ''--local_rank=${local_rank}'', ''--lr''])"
proof -
  have p: "parse_min_max_nnodes
             (nnodes ((default_args ''train.py'' [''--lr''])\<lparr>nproc_per_node := ''many''\<rparr>)) = Inr (1, 1)"
    by (simp add: default_args_fields parse_examples)
  have d: "fst (determine_local_world_size cpu_host
                  (nproc_per_node ((default_args ''train.py'' [''--lr''])\<lparr>nproc_per_node := ''many''\<rparr>))
                  fresh_proc) = Inl (ValueError ''Unsupported nproc_per_node value: many'')"
    by (simp add: determine_examples)
  have a: "fst (config_from_args cpu_host plain_externals
             ((default_args ''train.py'' [''--lr''])\<lparr>nproc_per_node := ''many''\<rparr>) fresh_proc) =
       Inl (ValueError ''Unsupported nproc_per_node value: many'')"
    by (rule config_from_args_determine_error [OF p _ _ _ d]) (simp_all add: default_args_fields)
  have m: "make_config plain_externals ((default_args ''train.py'' [''--lr''])\<lparr>use_env := False\<rparr>)
             1 1 (Some 4) = Inr default_config"
    by (simp add: make_config_def default_args_fields plain_externals_fields get_rdzv_endpoint_def
          str_int_examples default_config_def)
  have b: "fst (config_from_args cpu_host plain_externals
             ((default_args ''train.py'' [''--lr''])\<lparr>use_env := False\<rparr>) fresh_proc) =
       Inr (default_config,
            [''/usr/bin/python3'', ''-u'', ''train.py'', ''--local_rank=${local_rank}'', ''--lr''])"
    by (simp add: config_from_args_on_cpu_host default_args_fields m build_cmd_result
          cpu_host_fields plain_externals_fields)
  from a b show ?thesis by (simp add: default_args_fields)
qed

text \<open>
  Claim C6, amended. Once the steps before the command line have gone through (the node
  bounds parse and pass both assertions, the worker count resolves, the
  \<open>OMP_NUM_THREADS\<close> step and the construction of the \<open>LaunchConfig\<close> raise nothing),
  \<open>config_from_args\<close> raises \<open>ValueError\<close> exactly when \<open>no_python\<close> is set together
  with \<open>use_env\<close> unset or with \<open>module\<close> set. Otherwise the command starts with
  \<open>[sys.executable, "-u"]\<close> (followed by \<open>-m\<close> when \<open>module\<close> is set) when \<open>no_python\<close>
  is unset and directly with the training script when it is set, and it ends with the
  training script, then \<open>--local_rank=\<close> and \<open>macros.local_rank\<close> when \<open>use_env\<close> is unset,
  then the training script arguments.
\<close>

theorem config_from_args_cmd:
  "parse_min_max_nnodes (nnodes a) = Inr (lo, hi) \<Longrightarrow>
   0 < lo \<and> lo \<le> hi \<and> 0 \<le> max_restarts a \<Longrightarrow>
   fst (determine_local_world_size h (nproc_per_node a) st) = Inr npn \<Longrightarrow>
   environ st ''OMP_NUM_THREADS'' \<noteq> None \<or> npn \<noteq> None \<Longrightarrow>
   make_config X a lo hi npn = Inr config \<Longrightarrow>
     (no_python a \<and> (\<not> use_env a \<or> module a) \<longrightarrow>
        (\<exists>msg. fst (config_from_args h X a st) = Inl (ValueError msg)))
   \<and> (\<not> (no_python a \<and> (\<not> use_env a \<or> module a)) \<longrightarrow>
        fst (config_from_args h X a st) =
          Inr (config,
               (if no_python a then []
                else [sys_executable h, ''-u''] @ (if module a then [''-m''] else []))
               @ [training_script a]
               @ (if use_env a then [] else [''--local_rank='' @ macros_local_rank X])
               @ training_script_args a))"
proof -
  assume p: "parse_min_max_nnodes (nnodes a) = Inr (lo, hi)"
    and c: "0 < lo \<and> lo \<le> hi \<and> 0 \<le> max_restarts a"
    and d: "fst (determine_local_world_size h (nproc_per_node a) st) = Inr npn"
    and o: "environ st ''OMP_NUM_THREADS'' \<noteq> None \<or> npn \<noteq> None"
    and m: "make_config X a lo hi npn = Inr config"
  from c have c': "0 < lo" "lo \<le> hi" "0 \<le> max_restarts a" by simp_all
  from config_from_args_result [OF p c' d o, of X] m
  have "fst (config_from_args h X a st) = map_sum id (Pair config) (fst (build_cmd h X a st))"
    by simp
  then show ?thesis
    by (auto simp: build_cmd_result)
qed

theorem config_from_args_cmd_witness:
  "parse_min_max_nnodes (nnodes (default_args ''train.py'' [''--lr''])) = Inr (1, 1)
   \<and> 0 \<le> max_restarts (default_args ''train.py'' [''--lr''])
   \<and> fst (determine_local_world_size cpu_host
             (nproc_per_node (default_args ''train.py'' [''--lr''])) fresh_proc) = Inr (Some 4)
   \<and> make_config plain_externals (default_args ''train.py'' [''--lr'']) 1 1 (Some 4) =
        Inr default_config
   \<and> \<not> no_python (default_args ''train.py'' [''--lr''])
   \<and> fst (config_from_args cpu_host plain_externals (default_args ''train.py'' [''--lr''])
             fresh_proc) =
        Inr (default_config, [''/usr/bin/python3'', ''-u'', ''train.py'', ''--lr''])
   \<and> no_python ((default_args ''train.py'' [''--lr''])\<lparr>no_python := True, module := True\<rparr>)
   \<and> module ((default_args ''train.py'' [''--lr''])\<lparr>no_python := True, module := True\<rparr>)
   \<and> (\<exists>msg. fst (config_from_args cpu_host plain_externals
                     ((default_args ''train.py'' [''--lr''])\<lparr>no_python := True, module := True\<rparr>)
                     fresh_proc) = Inl (ValueError msg))"
proof -
  have p: "parse_min_max_nnodes (nnodes (default_args ''train.py'' [''--lr''])) = Inr (1, 1)"
    by (simp add: default_args_fields parse_examples)
  have p': "parse_min_max_nnodes
              (nnodes ((default_args ''train.py'' [''--lr''])\<lparr>no_python := True, module := True\<rparr>))
              = Inr (1, 1)"
    by (simp add: default_args_fields parse_examples)
  have c': "(0::int) < 1 \<and> (1::int) \<le> 1
            \<and> 0 \<le> max_restarts ((default_args ''train.py'' [''--lr''])
                                     \<lparr>no_python := True, module := True\<rparr>)"
    by (simp add: default_args_fields)
  have d': "fst (determine_local_world_size cpu_host
             (nproc_per_node ((default_args ''train.py'' [''--lr''])
                                \<lparr>no_python := True, module := True\<rparr>)) fresh_proc) = Inr (Some 4)"
    by (simp add: default_args_fields determine_examples)
  have m': "make_config plain_externals
              ((default_args ''train.py'' [''--lr''])\<lparr>no_python := True, module := True\<rparr>)
              1 1 (Some 4) = Inr default_config"
    by (simp add: make_config_def default_args_fields plain_externals_fields get_rdzv_endpoint_def
          str_int_examples default_config_def)
  have c: "(0::int) < 1 \<and> (1::int) \<le> 1 \<and> 0 \<le> max_restarts (default_args ''train.py'' [''--lr''])"
    by (simp add: default_args_fields)
  have d: "fst (determine_local_world_size cpu_host
             (nproc_per_node (default_args ''train.py'' [''--lr''])) fresh_proc) = Inr (Some 4)"
    by (simp add: default_args_fields determine_examples)
  have o: "environ fresh_proc ''OMP_NUM_THREADS'' \<noteq> None \<or> Some (4::int) \<noteq> None"
    by simp
  note m = make_config_default [of "''train.py''" "[''--lr'']"]
  from config_from_args_cmd [OF p c d o m] config_from_args_cmd [OF p' c' d' o m'] p c d m
  show ?thesis
    by (simp add: default_args_fields cpu_host_fields)
qed

text \<open>
  Claim C9. When \<open>config_from_args\<close> resolves the worker count to an integer, it sets
  \<open>OMP_NUM_THREADS\<close> to \<open>1\<close> if the variable is absent from the environment and the
  count is greater than 1, and leaves the environment unchanged otherwise. In every
  other case (the worker count resolves to no integer, or \<open>config_from_args\<close> raises
  before resolving it) the environment is unchanged as well.
\<close>

theorem config_from_args_omp_num_threads:
  "(parse_min_max_nnodes (nnodes a) = Inr (lo, hi) \<and> 0 < lo \<and> lo \<le> hi \<and> 0 \<le> max_restarts a
      \<and> fst (determine_local_world_size h (nproc_per_node a) st) = Inr (Some n) \<longrightarrow>
      environ (snd (config_from_args h X a st)) =
        (if environ st ''OMP_NUM_THREADS'' = None \<and> 1 < n
         then (environ st)(''OMP_NUM_THREADS'' \<mapsto> ''1'') else environ st))
   \<and> (parse_min_max_nnodes (nnodes a) = Inr (lo, hi) \<and> 0 < lo \<and> lo \<le> hi \<and> 0 \<le> max_restarts a
      \<and> (fst (determine_local_world_size h (nproc_per_node a) st) = Inl e
           \<or> fst (determine_local_world_size h (nproc_per_node a) st) = Inr None) \<longrightarrow>
      environ (snd (config_from_args h X a st)) = environ st)
   \<and> (parse_min_max_nnodes (nnodes a) = Inr (lo, hi)
      \<and> \<not> (0 < lo \<and> lo \<le> hi \<and> 0 \<le> max_restarts a) \<longrightarrow>
      environ (snd (config_from_args h X a st)) = environ st)
   \<and> (parse_min_max_nnodes (nnodes a) = Inl e' \<longrightarrow>
      environ (snd (config_from_args h X a st)) = environ st)"
proof -
  have one: "str_int 1 = ''1''"
    by (simp add: str_int_def str_nat.simps digit_char_def)
  show ?thesis
    unfolding config_from_args_environ_eq one
    by auto
qed

theorem config_from_args_omp_num_threads_witness:
  "parse_min_max_nnodes (nnodes (default_args ''train.py'' [''--lr''])) = Inr (1, 1)
   \<and> 0 \<le> max_restarts (default_args ''train.py'' [''--lr''])
   \<and> fst (determine_local_world_size cpu_host
             (nproc_per_node (default_args ''train.py'' [''--lr''])) fresh_proc) = Inr (Some 4)
   \<and> environ fresh_proc ''OMP_NUM_THREADS'' = None
   \<and> environ (snd (config_from_args cpu_host plain_externals
                      (default_args ''train.py'' [''--lr'']) fresh_proc)) =
        [''OMP_NUM_THREADS'' \<mapsto> ''1'']
   \<and> environ (snd (config_from_args cpu_host plain_externals
                      (default_args ''train.py'' [''--lr''])
                      (fresh_proc\<lparr>environ := [''OMP_NUM_THREADS'' \<mapsto> ''8'']\<rparr>))) =
        [''OMP_NUM_THREADS'' \<mapsto> ''8'']
   \<and> fst (determine_local_world_size cpu_host
             (nproc_per_node ((default_args ''train.py'' [''--lr''])\<lparr>nproc_per_node := ''gpu''\<rparr>))
             fresh_proc) = Inl (ValueError ''Cuda is not available.'')
   \<and> environ (snd (config_from_args cpu_host plain_externals
                      ((default_args ''train.py'' [''--lr''])\<lparr>nproc_per_node := ''gpu''\<rparr>)
                      fresh_proc)) = Map.empty
   \<and> parse_min_max_nnodes (nnodes ((default_args ''train.py'' [''--lr''])\<lparr>nnodes := ''0''\<rparr>))
        = Inr (0, 0)
   \<and> environ (snd (config_from_args cpu_host plain_externals
                      ((default_args ''train.py'' [''--lr''])\<lparr>nnodes := ''0''\<rparr>)
                      fresh_proc)) = Map.empty"
proof -
  have p: "parse_min_max_nnodes (nnodes (default_args ''train.py'' [''--lr''])) = Inr (1, 1)"
    by (simp add: default_args_fields parse_examples)
  have pg: "parse_min_max_nnodes
              (nnodes ((default_args ''train.py'' [''--lr''])\<lparr>nproc_per_node := ''gpu''\<rparr>))
              = Inr (1, 1)"
    by (simp add: default_args_fields parse_examples)
  have dg: "fst (determine_local_world_size cpu_host
             (nproc_per_node ((default_args ''train.py'' [''--lr''])\<lparr>nproc_per_node := ''gpu''\<rparr>))
             fresh_proc) = Inl (ValueError ''Cuda is not available.'')"
    by (simp add: determine_examples)
  have p0: "parse_min_max_nnodes (nnodes ((default_args ''train.py'' [''--lr''])\<lparr>nnodes := ''0''\<rparr>))
        = Inr (0, 0)"
    by (simp add: parse_examples)
  note g = config_from_args_omp_num_threads
         [where a = "(default_args ''train.py'' [''--lr''])\<lparr>nproc_per_node := ''gpu''\<rparr>"
            and lo = 1 and hi = 1 and e = "ValueError ''Cuda is not available.''"
            and h = cpu_host and X = plain_externals and st = fresh_proc]
  note z = config_from_args_omp_num_threads
         [where a = "(default_args ''train.py'' [''--lr''])\<lparr>nnodes := ''0''\<rparr>"
            and lo = 0 and hi = 0 and h = cpu_host and X = plain_externals and st = fresh_proc]
  have eg: "environ (snd (config_from_args cpu_host plain_externals
                      ((default_args ''train.py'' [''--lr''])\<lparr>nproc_per_node := ''gpu''\<rparr>)
                      fresh_proc)) = Map.empty"
    using g pg dg by (simp add: default_args_fields fresh_proc_def)
  have ez: "environ (snd (config_from_args cpu_host plain_externals
                      ((default_args ''train.py'' [''--lr''])\<lparr>nnodes := ''0''\<rparr>)
                      fresh_proc)) = Map.empty"
    using z p0 by (simp add: fresh_proc_def)
  have d: "\<And>st. fst (determine_local_world_size cpu_host
             (nproc_per_node (default_args ''train.py'' [''--lr''])) st) = Inr (Some 4)"
    by (simp add: default_args_fields determine_examples)
  from config_from_args_omp_num_threads
         [where a = "default_args ''train.py'' [''--lr'']" and lo = 1 and hi = 1 and n = 4
            and h = cpu_host and X = plain_externals and st = fresh_proc]
       config_from_args_omp_num_threads
         [where a = "default_args ''train.py'' [''--lr'']" and lo = 1 and hi = 1 and n = 4
            and h = cpu_host and X = plain_externals
            and st = "fresh_proc\<lparr>environ := [''OMP_NUM_THREADS'' \<mapsto> ''8'']\<rparr>"]
       p d dg p0 eg ez
  show ?thesis
    by (simp add: default_args_fields fresh_proc_def)
qed

section \<open>Properties of \<open>run\<close>\<close>

lemma run_standalone_config_error:
  assumes "standalone a"
    and "fst (config_from_args h X
                (a\<lparr>rdzv_backend := ''etcd'', rdzv_endpoint := etcd_endpoint h, rdzv_id := uuid4 h\<rparr>)
                (emit (LogInfo (rendezvous_info
                   (a\<lparr>rdzv_backend := ''etcd'', rdzv_endpoint := etcd_endpoint h,
                      rdzv_id := uuid4 h\<rparr>))) st)) = Inl e"
  shows "outcome (run h X a st) = Inl e \<and> server (run h X a st) = Started"
proof -
  obtain r st2 where c: "config_from_args h X
                (a\<lparr>rdzv_backend := ''etcd'', rdzv_endpoint := etcd_endpoint h, rdzv_id := uuid4 h\<rparr>)
                (emit (LogInfo (rendezvous_info
                   (a\<lparr>rdzv_backend := ''etcd'', rdzv_endpoint := etcd_endpoint h,
                      rdzv_id := uuid4 h\<rparr>))) st) = (r, st2)"
    by (cases "config_from_args h X
                (a\<lparr>rdzv_backend := ''etcd'', rdzv_endpoint := etcd_endpoint h, rdzv_id := uuid4 h\<rparr>)
                (emit (LogInfo (rendezvous_info
                   (a\<lparr>rdzv_backend := ''etcd'', rdzv_endpoint := etcd_endpoint h,
                      rdzv_id := uuid4 h\<rparr>))) st)") blast
  with assms(2) have "r = Inl e" by simp
  with c assms(1) show ?thesis by (simp add: run_def Let_def)
qed

lemma run_standalone_launched:
  assumes "standalone a"
    and "fst (config_from_args h X
                (a\<lparr>rdzv_backend := ''etcd'', rdzv_endpoint := etcd_endpoint h, rdzv_id := uuid4 h\<rparr>)
                (emit (LogInfo (rendezvous_info
                   (a\<lparr>rdzv_backend := ''etcd'', rdzv_endpoint := etcd_endpoint h,
                      rdzv_id := uuid4 h\<rparr>))) st)) = Inr (config, cmd)"
  shows "server (run h X a st) = Stopped"
proof -
  obtain r st2 where c: "config_from_args h X
                (a\<lparr>rdzv_backend := ''etcd'', rdzv_endpoint := etcd_endpoint h, rdzv_id := uuid4 h\<rparr>)
                (emit (LogInfo (rendezvous_info
                   (a\<lparr>rdzv_backend := ''etcd'', rdzv_endpoint := etcd_endpoint h,
                      rdzv_id := uuid4 h\<rparr>))) st) = (r, st2)"
    by (cases "config_from_args h X
                (a\<lparr>rdzv_backend := ''etcd'', rdzv_endpoint := etcd_endpoint h, rdzv_id := uuid4 h\<rparr>)
                (emit (LogInfo (rendezvous_info
                   (a\<lparr>rdzv_backend := ''etcd'', rdzv_endpoint := etcd_endpoint h,
                      rdzv_id := uuid4 h\<rparr>))) st)") blast
  with assms(2) have "r = Inr (config, cmd)" by simp
  with c assms(1) show ?thesis
    by (simp add: run_def Let_def split: prod.splits list.splits)
qed

lemma run_standalone_overrides:
  assumes "standalone a"
  shows "args_after (run h X a st) =
           a\<lparr>rdzv_backend := ''etcd'', rdzv_endpoint := etcd_endpoint h, rdzv_id := uuid4 h\<rparr>"
    and "run h X (a\<lparr>rdzv_backend := b, rdzv_endpoint := e, rdzv_id := i\<rparr>) st = run h X a st"
  using assms by (simp_all add: run_def Let_def split: prod.splits sum.splits)

text \<open>
  Claim C2 at \<open>--standalone --nproc_per_node=gpu\<close> on a machine without CUDA:
  \<open>run\<close> starts the embedded server, \<open>config_from_args\<close> raises \<open>ValueError\<close> outside
  the \<open>try\<close> block, and \<open>run\<close> exits with the server still started.
\<close>

theorem run_leaves_server_running:
  "outcome (run cpu_host plain_externals
              ((default_args ''train.py'' [''--lr''])\<lparr>standalone := True, nproc_per_node := ''gpu''\<rparr>)
              fresh_proc) = Inl (ValueError ''Cuda is not available.'')
   \<and> server (run cpu_host plain_externals
              ((default_args ''train.py'' [''--lr''])\<lparr>standalone := True, nproc_per_node := ''gpu''\<rparr>)
              fresh_proc) = Started"
proof (rule run_standalone_config_error)
  show "standalone ((default_args ''train.py'' [''--lr''])\<lparr>standalone := True, nproc_per_node := ''gpu''\<rparr>)"
    by simp
  show "fst (config_from_args cpu_host plain_externals
          ((default_args ''train.py'' [''--lr''])
             \<lparr>standalone := True, nproc_per_node := ''gpu'', rdzv_backend := ''etcd'',
              rdzv_endpoint := etcd_endpoint cpu_host, rdzv_id := uuid4 cpu_host\<rparr>)
          (emit (LogInfo (rendezvous_info
             ((default_args ''train.py'' [''--lr''])
                \<lparr>standalone := True, nproc_per_node := ''gpu'', rdzv_backend := ''etcd'',
                 rdzv_endpoint := etcd_endpoint cpu_host, rdzv_id := uuid4 cpu_host\<rparr>))) fresh_proc)) =
        Inl (ValueError ''Cuda is not available.'')"
    by (rule config_from_args_determine_error [where lo = 1 and hi = 1])
       (simp_all add: default_args_fields parse_examples determine_examples)
qed

end
